theory Spec2Isabelle
  imports Complex_Main "HOL-Library.Multiset"
begin

section \<open>JavaScript values\<close>

text \<open>
  The handlers of \<^verbatim>\<open>movieController.ts\<close> work on dynamically typed values: query
  parameters, JSON request bodies, documents returned by the driver. They are modelled by
  one datatype. A string is the list of its code units (those below 256), an object is the
  list of its own properties in insertion order (keys distinct), a finite Number is the
  rational it denotes; rounding to binary64 is not modelled. \<open>JObjectId h\<close> is the driver's
  \<^verbatim>\<open>new ObjectId(h)\<close>, and \<open>JRegExp p f\<close> is \<^verbatim>\<open>new RegExp(p, f)\<close>.
\<close>

datatype jsval =
    JUndefined
  | JNull
  | JBool bool
  | JNum rat
  | JNaN
  | JStr string
  | JArr "jsval list"
  | JObj "(string \<times> jsval) list"
  | JObjectId string
  | JRegExp string string

text \<open>ToBoolean, as used by \<^verbatim>\<open>if (x)\<close>, \<^verbatim>\<open>!x\<close>, \<^verbatim>\<open>x || y\<close> and \<^verbatim>\<open>x && y\<close>.\<close>

fun truthy :: "jsval \<Rightarrow> bool" where
  "truthy JUndefined = False"
| "truthy JNull = False"
| "truthy (JBool b) = b"
| "truthy (JNum r) = (r \<noteq> 0)"
| "truthy JNaN = False"
| "truthy (JStr s) = (s \<noteq> [])"
| "truthy (JArr xs) = True"
| "truthy (JObj kvs) = True"
| "truthy (JObjectId h) = True"
| "truthy (JRegExp p f) = True"

text \<open>\<^verbatim>\<open>a || b\<close> on values.\<close>

definition jsOr :: "jsval \<Rightarrow> jsval \<Rightarrow> jsval" where
  "jsOr a b = (if truthy a then a else b)"

text \<open>
  Reading a property \<^verbatim>\<open>v.k\<close> of a value that is neither \<^verbatim>\<open>undefined\<close> nor
  \<^verbatim>\<open>null\<close>. Only names that no primitive wrapper, array or ObjectId defines are read
  this way by the handlers, so every value but an object answers \<^verbatim>\<open>undefined\<close>.
\<close>

fun getProp :: "jsval \<Rightarrow> string \<Rightarrow> jsval" where
  "getProp (JObj kvs) k = (case map_of kvs k of None \<Rightarrow> JUndefined | Some v \<Rightarrow> v)"
| "getProp v k = JUndefined"

text \<open>\<^verbatim>\<open>Array.isArray\<close>.\<close>

fun isArray :: "jsval \<Rightarrow> bool" where
  "isArray (JArr xs) = True"
| "isArray v = False"

section \<open>parseInt\<close>

text \<open>
  \<^verbatim>\<open>parseInt(s)\<close> with no radix, following ECMA-262: leading white space is skipped, a sign
  is read, a prefix \<^verbatim>\<open>0x\<close> or \<^verbatim>\<open>0X\<close> selects radix 16, the longest run of digits is
  read, and the result is \<^verbatim>\<open>NaN\<close> (here \<open>None\<close>) when that run is empty. The mathematical
  integer is returned; \<^verbatim>\<open>-0\<close> is \<open>0\<close>.
\<close>

definition isStrWhiteSpaceChar :: "char \<Rightarrow> bool" where
  "isStrWhiteSpaceChar c \<longleftrightarrow>
     (of_char c :: nat) \<in> {0x09, 0x0A, 0x0B, 0x0C, 0x0D, 0x20, 0xA0}"

definition digitValue :: "char \<Rightarrow> nat option" where
  "digitValue c =
     (let n = (of_char c :: nat) in
      if 48 \<le> n \<and> n \<le> 57 then Some (n - 48)
      else if 97 \<le> n \<and> n \<le> 122 then Some (n - 87)
      else if 65 \<le> n \<and> n \<le> 90 then Some (n - 55)
      else None)"

definition isDigitIn :: "nat \<Rightarrow> char \<Rightarrow> bool" where
  "isDigitIn R c = (case digitValue c of None \<Rightarrow> False | Some d \<Rightarrow> d < R)"

definition digitsValue :: "nat \<Rightarrow> string \<Rightarrow> nat" where
  "digitsValue R Z = foldl (\<lambda>acc c. acc * R + the (digitValue c)) 0 Z"

definition parseInt :: "string \<Rightarrow> int option" where
  "parseInt inputString =
     (let S = dropWhile isStrWhiteSpaceChar inputString;
          sign = (if S \<noteq> [] \<and> hd S = CHR ''-'' then - 1 else 1 :: int);
          S1 = (if S \<noteq> [] \<and> (hd S = CHR ''+'' \<or> hd S = CHR ''-'') then tl S else S);
          hex = (take 2 S1 = ''0x'' \<or> take 2 S1 = ''0X'');
          R = (if hex then 16 else 10);
          S2 = (if hex then drop 2 S1 else S1);
          Z = takeWhile (isDigitIn R) S2
      in if Z = [] then None else Some (sign * int (digitsValue R Z)))"

section \<open>Query parameters\<close>

text \<open>
  Express parses the query string into strings, arrays and nested objects
  (\<^verbatim>\<open>req.query\<close>); an absent parameter is \<^verbatim>\<open>undefined\<close>, here \<open>None\<close>. The handlers
  annotate the parameters as strings but still meet the other two shapes at run time.
\<close>

datatype qval =
    QStr string
  | QArr "qval list"
  | QObj "(string \<times> qval) list"

fun qtruthy :: "qval option \<Rightarrow> bool" where
  "qtruthy None = False"
| "qtruthy (Some (QStr s)) = (s \<noteq> [])"
| "qtruthy (Some v) = True"

text \<open>ToString: an array joins its elements with commas, an object prints as a fixed tag.\<close>

fun qToString :: "qval \<Rightarrow> string"
  and qJoin :: "qval list \<Rightarrow> string" where
  "qToString (QStr s) = s"
| "qToString (QArr xs) = qJoin xs"
| "qToString (QObj kvs) = ''[object Object]''"
| "qJoin [] = []"
| "qJoin [x] = qToString x"
| "qJoin (x # y # ys) = qToString x @ '','' @ qJoin (y # ys)"

text \<open>The same value placed inside a filter or a pipeline handed to the driver.\<close>

fun qjs :: "qval \<Rightarrow> jsval"
  and qjsList :: "qval list \<Rightarrow> jsval list"
  and qjsProps :: "(string \<times> qval) list \<Rightarrow> (string \<times> jsval) list" where
  "qjs (QStr s) = JStr s"
| "qjs (QArr xs) = JArr (qjsList xs)"
| "qjs (QObj kvs) = JObj (qjsProps kvs)"
| "qjsList [] = []"
| "qjsList (x # xs) = qjs x # qjsList xs"
| "qjsProps [] = []"
| "qjsProps (kv # kvs) = (fst kv, qjs (snd kv)) # qjsProps kvs"

text \<open>A destructuring default \<^verbatim>\<open>{ limit = "20" } = req.query\<close> applies to \<^verbatim>\<open>undefined\<close> only.\<close>

definition withDefault :: "qval option \<Rightarrow> string \<Rightarrow> qval" where
  "withDefault v d = (case v of None \<Rightarrow> QStr d | Some x \<Rightarrow> x)"

text \<open>
  \<^verbatim>\<open>Math.min(Math.max(parseInt(limit) || dflt, 1), cap)\<close>, the expression every paginated
  handler repeats with its own default and ceiling. \<^verbatim>\<open>parseInt(limit) || dflt\<close> takes the
  default when the parse is \<^verbatim>\<open>NaN\<close> or zero. Rounding the parsed integer to a Number is
  monotone and exact up to \<open>2^53\<close>, so the clamped value is the one computed on integers.
\<close>

definition parseIntOr :: "qval \<Rightarrow> int \<Rightarrow> int" where
  "parseIntOr v dflt =
     (case parseInt (qToString v) of
        None \<Rightarrow> dflt
      | Some n \<Rightarrow> if n = 0 then dflt else n)"

definition clampLimit :: "qval \<Rightarrow> int \<Rightarrow> int \<Rightarrow> int" where
  "clampLimit limit dflt cap = min (max (parseIntOr limit dflt) 1) cap"

text \<open>
  \<^verbatim>\<open>Math.max(parseInt(skip) || 0, 0)\<close>. The parsed integer is kept exact here; the source
  holds it as a double, which rounds integers beyond \<open>2^53\<close>.
\<close>

definition clampSkip :: "qval \<Rightarrow> int" where
  "clampSkip skip = max (parseIntOr skip 0) 0"

section \<open>The request, the platform and the world\<close>

record request =
  params_id :: string
  query :: "(string \<times> qval) list"
  body :: jsval

definition queryParam :: "request \<Rightarrow> string \<Rightarrow> qval option" where
  "queryParam req k = map_of (query req) k"

text \<open>Thrown values: a driver error with its code, or an error with a name and a message.\<close>

datatype error =
    MongoError jsval string
  | JsError string string

text \<open>
  The operations of the driver that the handlers call, each with the name of its
  collection and its arguments as the handler built them.
\<close>

datatype store_op =
    Find string jsval jsval int int
  | FindOne string jsval
  | UpdateOne string jsval jsval
  | UpdateMany string jsval jsval
  | DeleteOne string jsval
  | DeleteMany string jsval
  | FindOneAndDelete string jsval
  | Aggregate string "jsval list"

text \<open>
  What \<^verbatim>\<open>fetch\<close> answers: a rejected promise, or a response with its status, its
  text and what \<^verbatim>\<open>response.json()\<close> resolves to or rejects with.
\<close>

datatype fetch_result =
    FetchRejected error
  | FetchResponse (ok: bool) (status_code: nat) (body_text: string) (body_json: "error + jsval")

text \<open>
  Everything outside the repository is a parameter: the driver's identifier predicate
  and the hexadecimal form of the identifier it builds from a value,
  the regular-expression compiler (which throws on a malformed pattern), number parsing
  and printing, the clock, the document store and the embedding provider. \<open>'s\<close> is the state of the outside world (the
  contents of the store, the time); the store and the provider are step functions on it.
\<close>

record 's platform =
  objectIdIsValid :: "jsval \<Rightarrow> bool"
  newRegExp :: "string \<Rightarrow> string \<Rightarrow> error + jsval"
  parseFloat :: "string \<Rightarrow> jsval"
  stringToNumber :: "string \<Rightarrow> jsval"
  numberToString :: "rat \<Rightarrow> string"
  now :: "'s \<Rightarrow> nat"
  toISOString :: "nat \<Rightarrow> string"
  objectIdHex :: "jsval \<Rightarrow> string"
  storeExec :: "store_op \<Rightarrow> 's \<Rightarrow> (error + jsval) \<times> 's"
  fetch :: "string \<Rightarrow> jsval \<Rightarrow> 's \<Rightarrow> fetch_result \<times> 's"
  VOYAGE_API_KEY :: "string option"

text \<open>
  The state a handler runs in: the outside world, the module variable \<^verbatim>\<open>database\<close> of
  \<^verbatim>\<open>config/database.ts\<close> (set once a connection is established), and the operations sent
  to the store so far.
\<close>

record 's world =
  outside :: 's
  database :: bool
  calls :: "store_op list"

text \<open>\<^verbatim>\<open>getCollection\<close> throws while the database is not connected.\<close>

definition getCollection :: "string \<Rightarrow> 's world \<Rightarrow> error + string" where
  "getCollection collectionName w =
     (if \<not> database w then Inl (JsError ''Error'' ''Database not connected.'')
      else Inr collectionName)"

text \<open>One awaited driver call: the operation is recorded and the store steps.\<close>

definition await_store ::
  "'s platform \<Rightarrow> store_op \<Rightarrow> 's world \<Rightarrow> (error + jsval) \<times> 's world" where
  "await_store P op w =
     (let (r, s') = storeExec P op (outside w)
      in (r, w\<lparr>outside := s', calls := calls w @ [op]\<rparr>))"

section \<open>Response envelopes (utils/errorHandler.ts)\<close>

record response =
  status :: nat
  json :: jsval

definition optStr :: "string option \<Rightarrow> jsval" where
  "optStr s = (case s of None \<Rightarrow> JUndefined | Some x \<Rightarrow> JStr x)"

definition createSuccessResponse ::
  "'s platform \<Rightarrow> 's \<Rightarrow> jsval \<Rightarrow> string option \<Rightarrow> jsval" where
  "createSuccessResponse P s data message =
     JObj [(''success'', JBool True),
           (''message'', jsOr (optStr message) (JStr ''Operation completed successfully'')),
           (''data'', data),
           (''timestamp'', JStr (toISOString P (now P s)))]"

definition createErrorResponse ::
  "'s platform \<Rightarrow> 's \<Rightarrow> string \<Rightarrow> string option \<Rightarrow> jsval \<Rightarrow> jsval" where
  "createErrorResponse P s message code details =
     JObj [(''success'', JBool False),
           (''message'', JStr message),
           (''error'', JObj [(''message'', JStr message),
                             (''code'', optStr code),
                             (''details'', details)]),
           (''timestamp'', JStr (toISOString P (now P s)))]"

text \<open>The own property names of an object.\<close>

fun ownKeys :: "jsval \<Rightarrow> string list" where
  "ownKeys (JObj kvs) = map fst kvs"
| "ownKeys v = []"


section \<open>Operations on values\<close>

text \<open>Decimal digits of a natural number, as in a template literal or an array index.\<close>

fun showNat :: "nat \<Rightarrow> string" where
  "showNat n =
     (if n < 10 then [char_of (48 + n)]
      else showNat (n div 10) @ [char_of (48 + n mod 10)])"

declare showNat.simps [simp del]

text \<open>
  ToString of a value, as a template literal applies it. Printing a Number is the
  platform's; an array joins its elements, printing \<^verbatim>\<open>undefined\<close> and \<^verbatim>\<open>null\<close> as
  nothing.
\<close>

fun jsToString :: "'s platform \<Rightarrow> jsval \<Rightarrow> string"
  and jsElem :: "'s platform \<Rightarrow> jsval \<Rightarrow> string"
  and jsJoin :: "'s platform \<Rightarrow> jsval list \<Rightarrow> string" where
  "jsToString P JUndefined = ''undefined''"
| "jsToString P JNull = ''null''"
| "jsToString P (JBool b) = (if b then ''true'' else ''false'')"
| "jsToString P (JNum r) = numberToString P r"
| "jsToString P JNaN = ''NaN''"
| "jsToString P (JStr s) = s"
| "jsToString P (JArr xs) = jsJoin P xs"
| "jsToString P (JObj kvs) = ''[object Object]''"
| "jsToString P (JObjectId h) = h"
| "jsToString P (JRegExp p f) = ''/'' @ p @ ''/'' @ f"
| "jsElem P JUndefined = []"
| "jsElem P JNull = []"
| "jsElem P (JBool b) = jsToString P (JBool b)"
| "jsElem P (JNum r) = jsToString P (JNum r)"
| "jsElem P JNaN = jsToString P JNaN"
| "jsElem P (JStr s) = s"
| "jsElem P (JArr xs) = jsJoin P xs"
| "jsElem P (JObj kvs) = jsToString P (JObj kvs)"
| "jsElem P (JObjectId h) = h"
| "jsElem P (JRegExp p f) = jsToString P (JRegExp p f)"
| "jsJoin P [] = []"
| "jsJoin P [x] = jsElem P x"
| "jsJoin P (x # y # ys) = jsElem P x @ '','' @ jsJoin P (y # ys)"

text \<open>The own enumerable properties of a value, as \<^verbatim>\<open>{ ...v }\<close> copies them.\<close>

fun indexed :: "nat \<Rightarrow> jsval list \<Rightarrow> (string \<times> jsval) list" where
  "indexed i [] = []"
| "indexed i (x # xs) = (showNat i, x) # indexed (Suc i) xs"

fun spread :: "jsval \<Rightarrow> (string \<times> jsval) list" where
  "spread (JObj kvs) = kvs"
| "spread (JArr xs) = indexed 0 xs"
| "spread (JStr s) = indexed 0 (map (\<lambda>c. JStr [c]) s)"
| "spread v = []"

text \<open>
  \<^verbatim>\<open>Object.keys(v).length\<close>; \<^verbatim>\<open>Object.keys\<close> throws a TypeError on \<^verbatim>\<open>undefined\<close> and
  \<^verbatim>\<open>null\<close>.
\<close>

fun objectKeysLength :: "jsval \<Rightarrow> error + nat" where
  "objectKeysLength JUndefined =
     Inl (JsError ''TypeError'' ''Cannot convert undefined or null to object'')"
| "objectKeysLength JNull =
     Inl (JsError ''TypeError'' ''Cannot convert undefined or null to object'')"
| "objectKeysLength v = Inr (length (spread v))"

text \<open>Assignment \<^verbatim>\<open>o.k = v\<close> on a property list: replace in place, or add at the end.\<close>

fun setProp :: "(string \<times> jsval) list \<Rightarrow> string \<Rightarrow> jsval \<Rightarrow> (string \<times> jsval) list" where
  "setProp [] k v = [(k, v)]"
| "setProp (kv # kvs) k v = (if fst kv = k then (k, v) # kvs else kv # setProp kvs k v)"

text \<open>
  Destructuring \<^verbatim>\<open>const { k } = v\<close>, which throws a TypeError on \<^verbatim>\<open>undefined\<close> and
  \<^verbatim>\<open>null\<close>.
\<close>

fun destructure :: "jsval \<Rightarrow> string \<Rightarrow> error + jsval" where
  "destructure JUndefined k =
     Inl (JsError ''TypeError'' ''Cannot destructure property of undefined'')"
| "destructure JNull k =
     Inl (JsError ''TypeError'' ''Cannot destructure property of null'')"
| "destructure v k = Inr (getProp v k)"

text \<open>\<^verbatim>\<open>new ObjectId(id)\<close> for an identifier that passed \<^verbatim>\<open>ObjectId.isValid\<close>.\<close>

definition newObjectId :: "'s platform \<Rightarrow> jsval \<Rightarrow> jsval" where
  "newObjectId P v = JObjectId (objectIdHex P v)"

text \<open>\<^verbatim>\<open>res.status(st).json(createErrorResponse(...))\<close> and the success counterpart.\<close>

definition sendError ::
  "'s platform \<Rightarrow> 's world \<Rightarrow> nat \<Rightarrow> string \<Rightarrow> string \<Rightarrow> jsval \<Rightarrow> (error + response) \<times> 's world" where
  "sendError P w st message code details =
     (Inr \<lparr>status = st, json = createErrorResponse P (outside w) message (Some code) details\<rparr>, w)"

definition sendSuccess ::
  "'s platform \<Rightarrow> 's world \<Rightarrow> nat \<Rightarrow> jsval \<Rightarrow> string \<Rightarrow> (error + response) \<times> 's world" where
  "sendSuccess P w st data message =
     (Inr \<lparr>status = st, json = createSuccessResponse P (outside w) data (Some message)\<rparr>, w)"


section \<open>The global error handler (utils/errorHandler.ts)\<close>

record error_details =
  ed_message :: string
  ed_code :: string
  ed_details :: jsval
  ed_statusCode :: nat

fun parseErrorDetails :: "error \<Rightarrow> error_details" where
  "parseErrorDetails (MongoError code msg) =
     (if code = JNum 11000 then
        \<lparr>ed_message = ''Duplicate key error'', ed_code = ''DUPLICATE_KEY'',
         ed_details = JStr ''A document with this data already exists'', ed_statusCode = 409\<rparr>
      else if code = JNum 121 then
        \<lparr>ed_message = ''Document validation failed'', ed_code = ''DOCUMENT_VALIDATION_ERROR'',
         ed_details = JStr msg, ed_statusCode = 400\<rparr>
      else
        \<lparr>ed_message = ''Database error'', ed_code = ''DATABASE_ERROR'',
         ed_details = code, ed_statusCode = 500\<rparr>)"
| "parseErrorDetails (JsError name msg) =
     (if name = ''ValidationError'' then
        \<lparr>ed_message = ''Validation failed'', ed_code = ''VALIDATION_ERROR'',
         ed_details = JStr msg, ed_statusCode = 400\<rparr>
      else
        \<lparr>ed_message = (if msg \<noteq> [] then msg else ''Internal server error''),
         ed_code = ''INTERNAL_ERROR'', ed_details = JUndefined, ed_statusCode = 500\<rparr>)"

definition errorHandler :: "'s platform \<Rightarrow> error \<Rightarrow> 's world \<Rightarrow> response" where
  "errorHandler P err w =
     (let errorDetails = parseErrorDetails err
      in \<lparr>status = ed_statusCode errorDetails,
          json = createErrorResponse P (outside w) (ed_message errorDetails)
                   (Some (ed_code errorDetails)) (ed_details errorDetails)\<rparr>)"

text \<open>
  \<^verbatim>\<open>asyncHandler\<close> wraps every route: what the handler throws, or rejects with, goes to
  \<^verbatim>\<open>errorHandler\<close>.
\<close>

definition asyncHandler ::
  "('s platform \<Rightarrow> request \<Rightarrow> 's world \<Rightarrow> (error + response) \<times> 's world) \<Rightarrow>
   's platform \<Rightarrow> request \<Rightarrow> 's world \<Rightarrow> response \<times> 's world" where
  "asyncHandler fn P req w =
     (case fn P req w of
        (Inr r, w') \<Rightarrow> (r, w')
      | (Inl err, w') \<Rightarrow> (errorHandler P err w', w'))"

section \<open>Handlers on one movie (controllers/movieController.ts)\<close>

definition getMovieById ::
  "'s platform \<Rightarrow> request \<Rightarrow> 's world \<Rightarrow> (error + response) \<times> 's world" where
  "getMovieById P req w =
     (let id' = params_id req in
      if \<not> objectIdIsValid P (JStr id')
      then sendError P w 400 ''Invalid movie ID format'' ''INVALID_OBJECT_ID'' JUndefined
      else
       (case getCollection ''movies'' w of
          Inl e \<Rightarrow> (Inl e, w)
        | Inr moviesCollection \<Rightarrow>
           (case await_store P
                   (FindOne moviesCollection (JObj [(''_id'', newObjectId P (JStr id'))])) w of
              (Inl e, w1) \<Rightarrow> (Inl e, w1)
            | (Inr movie, w1) \<Rightarrow>
                if \<not> truthy movie
                then sendError P w1 404 ''Movie not found'' ''MOVIE_NOT_FOUND'' JUndefined
                else sendSuccess P w1 200 movie ''Movie retrieved successfully'')))"

definition updateMovie ::
  "'s platform \<Rightarrow> request \<Rightarrow> 's world \<Rightarrow> (error + response) \<times> 's world" where
  "updateMovie P req w =
     (let id' = params_id req; updateData = body req in
      if \<not> objectIdIsValid P (JStr id')
      then sendError P w 400 ''Invalid movie ID format'' ''INVALID_OBJECT_ID'' JUndefined
      else
       (case objectKeysLength updateData of
          Inl e \<Rightarrow> (Inl e, w)
        | Inr n \<Rightarrow>
           if n = 0
           then sendError P w 400 ''No update data provided'' ''NO_UPDATE_DATA'' JUndefined
           else
            (case getCollection ''movies'' w of
               Inl e \<Rightarrow> (Inl e, w)
             | Inr moviesCollection \<Rightarrow>
                (case await_store P
                        (UpdateOne moviesCollection
                           (JObj [(''_id'', newObjectId P (JStr id'))])
                           (JObj [(''$set'', updateData)])) w of
                   (Inl e, w1) \<Rightarrow> (Inl e, w1)
                 | (Inr result, w1) \<Rightarrow>
                     if getProp result ''matchedCount'' = JNum 0
                     then sendError P w1 404 ''Movie not found'' ''MOVIE_NOT_FOUND'' JUndefined
                     else
                      (case await_store P
                              (FindOne moviesCollection
                                 (JObj [(''_id'', newObjectId P (JStr id'))])) w1 of
                         (Inl e, w2) \<Rightarrow> (Inl e, w2)
                       | (Inr updatedMovie, w2) \<Rightarrow>
                           sendSuccess P w2 200 updatedMovie
                             (''Movie updated successfully. Modified ''
                              @ jsToString P (getProp result ''modifiedCount'')
                              @ '' field(s).''))))))"

definition deleteMovie ::
  "'s platform \<Rightarrow> request \<Rightarrow> 's world \<Rightarrow> (error + response) \<times> 's world" where
  "deleteMovie P req w =
     (let id' = params_id req in
      if \<not> objectIdIsValid P (JStr id')
      then sendError P w 400 ''Invalid movie ID format'' ''INVALID_OBJECT_ID'' JUndefined
      else
       (case getCollection ''movies'' w of
          Inl e \<Rightarrow> (Inl e, w)
        | Inr moviesCollection \<Rightarrow>
           (case await_store P
                   (DeleteOne moviesCollection (JObj [(''_id'', newObjectId P (JStr id'))])) w of
              (Inl e, w1) \<Rightarrow> (Inl e, w1)
            | (Inr result, w1) \<Rightarrow>
                if getProp result ''deletedCount'' = JNum 0
                then sendError P w1 404 ''Movie not found'' ''MOVIE_NOT_FOUND'' JUndefined
                else sendSuccess P w1 200
                       (JObj [(''deletedCount'', getProp result ''deletedCount'')])
                       ''Movie deleted successfully'')))"

definition findAndDeleteMovie ::
  "'s platform \<Rightarrow> request \<Rightarrow> 's world \<Rightarrow> (error + response) \<times> 's world" where
  "findAndDeleteMovie P req w =
     (let id' = params_id req in
      if \<not> objectIdIsValid P (JStr id')
      then sendError P w 400 ''Invalid movie ID format'' ''INVALID_OBJECT_ID'' JUndefined
      else
       (case getCollection ''movies'' w of
          Inl e \<Rightarrow> (Inl e, w)
        | Inr moviesCollection \<Rightarrow>
           (case await_store P
                   (FindOneAndDelete moviesCollection
                      (JObj [(''_id'', newObjectId P (JStr id'))])) w of
              (Inl e, w1) \<Rightarrow> (Inl e, w1)
            | (Inr deletedMovie, w1) \<Rightarrow>
                if \<not> truthy deletedMovie
                then sendError P w1 404 ''Movie not found'' ''MOVIE_NOT_FOUND'' JUndefined
                else sendSuccess P w1 200 deletedMovie
                       ''Movie found and deleted successfully'')))"

section \<open>Batch handlers\<close>

text \<open>
  \<^verbatim>\<open>filter._id.$in.map(...)\<close>: every entry is checked in order; the first one that is not
  a valid identifier throws, and nothing of the array is kept.
\<close>

fun convertIds :: "'s platform \<Rightarrow> jsval list \<Rightarrow> error + jsval list" where
  "convertIds P [] = Inr []"
| "convertIds P (id' # ids) =
     (if objectIdIsValid P id'
      then (case convertIds P ids of
              Inl e \<Rightarrow> Inl e
            | Inr os \<Rightarrow> Inr (newObjectId P id' # os))
      else Inl (JsError ''Error'' (''Invalid ObjectId: '' @ jsToString P id')))"

text \<open>
  The block \<^verbatim>\<open>let processedFilter = { ...filter }; if (filter._id && filter._id.$in &&
  Array.isArray(filter._id.$in)) { processedFilter._id = { $in: ... } }\<close>, which
  \<^verbatim>\<open>updateMoviesBatch\<close> and \<^verbatim>\<open>deleteMoviesBatch\<close> both contain.
\<close>

definition processFilter :: "'s platform \<Rightarrow> jsval \<Rightarrow> error + jsval" where
  "processFilter P filter' =
     (let processedFilter = spread filter';
          ins = getProp (getProp filter' ''_id'') ''$in''
      in if truthy (getProp filter' ''_id'') \<and> truthy ins \<and> isArray ins
         then (case ins of
                 JArr ids \<Rightarrow>
                  (case convertIds P ids of
                     Inl e \<Rightarrow> Inl e
                   | Inr os \<Rightarrow>
                       Inr (JObj (setProp processedFilter ''_id'' (JObj [(''$in'', JArr os)]))))
               | _ \<Rightarrow> Inr (JObj processedFilter))
         else Inr (JObj processedFilter))"

definition updateMoviesBatch ::
  "'s platform \<Rightarrow> request \<Rightarrow> 's world \<Rightarrow> (error + response) \<times> 's world" where
  "updateMoviesBatch P req w =
     (case destructure (body req) ''filter'' of
        Inl e \<Rightarrow> (Inl e, w)
      | Inr filter' \<Rightarrow>
         (let update = getProp (body req) ''update'' in
          if \<not> truthy filter' \<or> \<not> truthy update
          then sendError P w 400 ''Both filter and update objects are required''
                 ''MISSING_REQUIRED_FIELDS'' JUndefined
          else
           (case objectKeysLength update of
              Inl e \<Rightarrow> (Inl e, w)
            | Inr n \<Rightarrow>
               if n = 0
               then sendError P w 400 ''Update object cannot be empty'' ''EMPTY_UPDATE'' JUndefined
               else
                (case getCollection ''movies'' w of
                   Inl e \<Rightarrow> (Inl e, w)
                 | Inr moviesCollection \<Rightarrow>
                    (case processFilter P filter' of
                       Inl e \<Rightarrow> (Inl e, w)
                     | Inr processedFilter \<Rightarrow>
                        (case await_store P
                                (UpdateMany moviesCollection processedFilter
                                   (JObj [(''$set'', update)])) w of
                           (Inl e, w1) \<Rightarrow> (Inl e, w1)
                         | (Inr result, w1) \<Rightarrow>
                             sendSuccess P w1 200
                               (JObj [(''matchedCount'', getProp result ''matchedCount''),
                                      (''modifiedCount'', getProp result ''modifiedCount'')])
                               (''Update operation completed. Matched ''
                                @ jsToString P (getProp result ''matchedCount'')
                                @ '' documents, modified ''
                                @ jsToString P (getProp result ''modifiedCount'')
                                @ '' documents.'')))))))"

definition deleteMoviesBatch ::
  "'s platform \<Rightarrow> request \<Rightarrow> 's world \<Rightarrow> (error + response) \<times> 's world" where
  "deleteMoviesBatch P req w =
     (case destructure (body req) ''filter'' of
        Inl e \<Rightarrow> (Inl e, w)
      | Inr filter' \<Rightarrow>
         if \<not> truthy filter' \<or> objectKeysLength filter' = Inr 0
         then sendError P w 400
                ''Filter object is required and cannot be empty. This prevents accidental deletion of all documents.''
                ''MISSING_FILTER'' JUndefined
         else
          (case getCollection ''movies'' w of
             Inl e \<Rightarrow> (Inl e, w)
           | Inr moviesCollection \<Rightarrow>
              (case processFilter P filter' of
                 Inl e \<Rightarrow> (Inl e, w)
               | Inr processedFilter \<Rightarrow>
                  (case await_store P (DeleteMany moviesCollection processedFilter) w of
                     (Inl e, w1) \<Rightarrow> (Inl e, w1)
                   | (Inr result, w1) \<Rightarrow>
                       sendSuccess P w1 200
                         (JObj [(''deletedCount'', getProp result ''deletedCount'')])
                         (''Delete operation completed. Removed ''
                          @ jsToString P (getProp result ''deletedCount'')
                          @ '' documents.'')))))"


section \<open>More operations on values\<close>

text \<open>\<^verbatim>\<open>String.prototype.trim\<close>.\<close>

definition trim :: "string \<Rightarrow> string" where
  "trim s = rev (dropWhile isStrWhiteSpaceChar (rev (dropWhile isStrWhiteSpaceChar s)))"

text \<open>The Number that \<^verbatim>\<open>parseInt\<close> returns.\<close>

definition parseIntNumber :: "string \<Rightarrow> jsval" where
  "parseIntNumber s = (case parseInt s of None \<Rightarrow> JNaN | Some n \<Rightarrow> JNum (of_int n))"

text \<open>\<^verbatim>\<open>`${xs.length}`\<close>: the length of an array or a string, printed.\<close>

fun lengthOf :: "jsval \<Rightarrow> nat option" where
  "lengthOf (JArr xs) = Some (length xs)"
| "lengthOf (JStr s) = Some (length s)"
| "lengthOf v = None"

definition lengthText :: "jsval \<Rightarrow> string" where
  "lengthText v = (case lengthOf v of None \<Rightarrow> ''undefined'' | Some n \<Rightarrow> showNat n)"

text \<open>
  A property read \<^verbatim>\<open>v.k\<close> in a position where \<open>v\<close> may be anything: it throws a TypeError
  on \<^verbatim>\<open>undefined\<close> and \<^verbatim>\<open>null\<close>.
\<close>

fun member :: "jsval \<Rightarrow> string \<Rightarrow> error + jsval" where
  "member JUndefined k =
     Inl (JsError ''TypeError'' (''Cannot read properties of undefined (reading '' @ k @ '')''))"
| "member JNull k =
     Inl (JsError ''TypeError'' (''Cannot read properties of null (reading '' @ k @ '')''))"
| "member v k = Inr (getProp v k)"

text \<open>The first element \<^verbatim>\<open>v[0]\<close> of a value that is neither \<^verbatim>\<open>undefined\<close> nor \<^verbatim>\<open>null\<close>.\<close>

fun elem0 :: "jsval \<Rightarrow> jsval" where
  "elem0 (JArr xs) = (case xs of [] \<Rightarrow> JUndefined | x # _ \<Rightarrow> x)"
| "elem0 (JStr s) = (case s of [] \<Rightarrow> JUndefined | c # _ \<Rightarrow> JStr [c])"
| "elem0 (JObj kvs) = getProp (JObj kvs) ''0''"
| "elem0 v = JUndefined"

text \<open>Optional chaining \<^verbatim>\<open>v?.\<close>: \<^verbatim>\<open>undefined\<close> on \<^verbatim>\<open>undefined\<close> and \<^verbatim>\<open>null\<close>.\<close>

definition optChain :: "jsval \<Rightarrow> (jsval \<Rightarrow> jsval) \<Rightarrow> jsval" where
  "optChain v f = (if v = JUndefined \<or> v = JNull then JUndefined else f v)"

text \<open>\<^verbatim>\<open>v.toString()\<close>, which throws on \<^verbatim>\<open>undefined\<close> and \<^verbatim>\<open>null\<close>.\<close>

definition toStringMethod :: "'s platform \<Rightarrow> jsval \<Rightarrow> error + string" where
  "toStringMethod P v =
     (if v = JUndefined \<or> v = JNull
      then Inl (JsError ''TypeError'' ''Cannot read properties of undefined (reading toString)'')
      else Inr (jsToString P v))"

text \<open>ToNumber; the conversion of a string is the platform's.\<close>

fun toNumber :: "'s platform \<Rightarrow> jsval \<Rightarrow> jsval" where
  "toNumber P JUndefined = JNaN"
| "toNumber P JNull = JNum 0"
| "toNumber P (JBool b) = JNum (if b then 1 else 0)"
| "toNumber P (JNum r) = JNum r"
| "toNumber P JNaN = JNaN"
| "toNumber P v = stringToNumber P (jsToString P v)"

text \<open>\<^verbatim>\<open>a - b\<close> and \<^verbatim>\<open>a + b\<close>.\<close>

definition jsMinus :: "'s platform \<Rightarrow> jsval \<Rightarrow> jsval \<Rightarrow> jsval" where
  "jsMinus P a b =
     (case (toNumber P a, toNumber P b) of
        (JNum x, JNum y) \<Rightarrow> JNum (x - y)
      | _ \<Rightarrow> JNaN)"

fun isPrimitiveNonString :: "jsval \<Rightarrow> bool" where
  "isPrimitiveNonString JUndefined = True"
| "isPrimitiveNonString JNull = True"
| "isPrimitiveNonString (JBool b) = True"
| "isPrimitiveNonString (JNum r) = True"
| "isPrimitiveNonString JNaN = True"
| "isPrimitiveNonString v = False"

definition jsPlus :: "'s platform \<Rightarrow> jsval \<Rightarrow> jsval \<Rightarrow> jsval" where
  "jsPlus P a b =
     (if isPrimitiveNonString a \<and> isPrimitiveNonString b
      then (case (toNumber P a, toNumber P b) of
              (JNum x, JNum y) \<Rightarrow> JNum (x + y)
            | _ \<Rightarrow> JNaN)
      else JStr (jsToString P a @ jsToString P b))"

text \<open>
  \<^verbatim>\<open>Array.prototype.sort(compare)\<close>. The language fixes the result for a consistent
  comparator: the elements in comparator order, equal ones in their original order. It is
  modelled by insertion from the right; a comparator result of \<^verbatim>\<open>NaN\<close> counts as zero.
\<close>

fun notAfter :: "jsval \<Rightarrow> bool" where
  "notAfter (JNum r) = (r \<le> 0)"
| "notAfter v = True"

fun insertBy :: "('a \<Rightarrow> 'a \<Rightarrow> jsval) \<Rightarrow> 'a \<Rightarrow> 'a list \<Rightarrow> 'a list" where
  "insertBy compare x [] = [x]"
| "insertBy compare x (y # ys) =
     (if notAfter (compare x y) then x # y # ys else y # insertBy compare x ys)"

fun arraySort :: "('a \<Rightarrow> 'a \<Rightarrow> jsval) \<Rightarrow> 'a list \<Rightarrow> 'a list" where
  "arraySort compare [] = []"
| "arraySort compare (x # xs) = insertBy compare x (arraySort compare xs)"

text \<open>\<^verbatim>\<open>xs.map(f)\<close> for a callback that may throw: the first throw ends the map.\<close>

fun mapThrowing :: "('a \<Rightarrow> error + 'b) \<Rightarrow> 'a list \<Rightarrow> error + 'b list" where
  "mapThrowing f [] = Inr []"
| "mapThrowing f (x # xs) =
     (case f x of
        Inl e \<Rightarrow> Inl e
      | Inr y \<Rightarrow> (case mapThrowing f xs of Inl e \<Rightarrow> Inl e | Inr ys \<Rightarrow> Inr (y # ys)))"

text \<open>\<^verbatim>\<open>err.message\<close> of a thrown value.\<close>

fun errorMessage :: "error \<Rightarrow> string" where
  "errorMessage (MongoError code msg) = msg"
| "errorMessage (JsError name msg) = msg"


section \<open>Listing and compound search\<close>



text \<open>\<^verbatim>\<open>searchMovies\<close>.\<close>

definition validOperators :: "string list" where
  "validOperators = [''must'', ''should'', ''mustNot'', ''filter'']"

text \<open>\<^verbatim>\<open>validOperators.includes(searchOperator)\<close>: only a string can be in the list.\<close>

fun includesOperator :: "qval \<Rightarrow> bool" where
  "includesOperator (QStr s) = (s \<in> set validOperators)"
| "includesOperator v = False"

definition phraseClause :: "string \<Rightarrow> qval option \<Rightarrow> jsval list" where
  "phraseClause path v =
     (if qtruthy v
      then [JObj [(''phrase'', JObj [(''query'', qjs (the v)), (''path'', JStr path)])]]
      else [])"

definition fuzzyClause :: "string \<Rightarrow> qval option \<Rightarrow> jsval list" where
  "fuzzyClause path v =
     (if qtruthy v
      then [JObj [(''text'',
                   JObj [(''query'', qjs (the v)), (''path'', JStr path),
                         (''fuzzy'', JObj [(''maxEdits'', JNum 1), (''prefixLength'', JNum 5)])])]]
      else [])"

definition searchProjection :: jsval where
  "searchProjection =
     JObj (map (\<lambda>k. (k, JNum 1))
       [''_id'', ''title'', ''year'', ''plot'', ''fullplot'', ''released'', ''runtime'',
        ''poster'', ''genres'', ''directors'', ''writers'', ''cast'', ''countries'',
        ''languages'', ''rated'', ''awards'', ''imdb''])"

definition searchPipeline :: "string \<Rightarrow> jsval list \<Rightarrow> int \<Rightarrow> int \<Rightarrow> jsval list" where
  "searchPipeline searchOperator searchPhrases skipNum limitNum =
     [JObj [(''$search'',
             JObj [(''index'', JStr ''movieSearchIndex''),
                   (''compound'', JObj [(searchOperator, JArr searchPhrases)])])],
      JObj [(''$facet'',
             JObj [(''totalCount'', JArr [JObj [(''$count'', JStr ''count'')]]),
                   (''results'',
                    JArr [JObj [(''$skip'', JNum (of_int skipNum))],
                          JObj [(''$limit'', JNum (of_int limitNum))],
                          JObj [(''$project'', searchProjection)]])])]]"

definition searchMovies ::
  "'s platform \<Rightarrow> request \<Rightarrow> 's world \<Rightarrow> (error + response) \<times> 's world" where
  "searchMovies P req w =
     (case getCollection ''movies'' w of
        Inl e \<Rightarrow> (Inl e, w)
      | Inr moviesCollection \<Rightarrow>
         (let plot = queryParam req ''plot'';
              fullplot = queryParam req ''fullplot'';
              directors = queryParam req ''directors'';
              writers = queryParam req ''writers'';
              cast = queryParam req ''cast'';
              limit = withDefault (queryParam req ''limit'') ''20'';
              skip = withDefault (queryParam req ''skip'') ''0'';
              searchOperator = withDefault (queryParam req ''searchOperator'') ''must''
          in if \<not> includesOperator searchOperator
             then sendError P w 400
                    (''Invalid search_operator '' @ [CHR 0x27] @ qToString searchOperator
                     @ [CHR 0x27] @ ''. Must be one of: must, should, mustNot, filter'')
                    ''INVALID_SEARCH_OPERATOR'' JUndefined
             else
              (let searchPhrases =
                     phraseClause ''plot'' plot @ phraseClause ''fullplot'' fullplot
                     @ fuzzyClause ''directors'' directors @ fuzzyClause ''writers'' writers
                     @ fuzzyClause ''cast'' cast
               in if length searchPhrases = 0
                  then sendError P w 400 ''At least one search parameter must be provided''
                         ''NO_SEARCH_PARAMETERS'' JUndefined
                  else
                   (let limitNum = clampLimit limit 20 100;
                        skipNum = clampSkip skip;
                        pipeline = searchPipeline (qToString searchOperator) searchPhrases
                                     skipNum limitNum
                    in case await_store P (Aggregate moviesCollection pipeline) w of
                         (Inl e, w1) \<Rightarrow> (Inl e, w1)
                       | (Inr results, w1) \<Rightarrow>
                          (let facetResult = jsOr (elem0 results) (JObj []);
                               totalCount =
                                 jsOr (optChain (getProp facetResult ''totalCount'')
                                         (\<lambda>tc. optChain (elem0 tc) (\<lambda>c. getProp c ''count'')))
                                      (JNum 0);
                               movies = jsOr (getProp facetResult ''results'') (JArr [])
                           in sendSuccess P w1 200
                                (JObj [(''movies'', movies), (''totalCount'', totalCount)])
                                (''Found '' @ jsToString P totalCount
                                 @ '' movies matching the search criteria''))))))"


section \<open>Vector search\<close>

text \<open>
  \<^verbatim>\<open>generateVoyageEmbedding\<close>. The request body is handed to \<open>fetch\<close> as a value (the source
  serialises it with \<^verbatim>\<open>JSON.stringify\<close>). Whatever is thrown inside is thrown again as an
  \<^verbatim>\<open>Error\<close> whose message starts with \<^verbatim>\<open>Failed to generate embedding: \<close>.
\<close>

definition voyageRequest :: "string \<Rightarrow> string \<Rightarrow> jsval" where
  "voyageRequest text' apiKey =
     JObj [(''method'', JStr ''POST''),
           (''headers'', JObj [(''Content-Type'', JStr ''application/json''),
                               (''Authorization'', JStr (''Bearer '' @ apiKey))]),
           (''body'', JObj [(''input'', JArr [JStr text']),
                            (''model'', JStr ''voyage-3-large''),
                            (''output_dimension'', JNum 2048),
                            (''input_type'', JStr ''query'')])]"

definition extractEmbedding :: "jsval \<Rightarrow> error + jsval" where
  "extractEmbedding data =
     (case member data ''data'' of
        Inl e \<Rightarrow> Inl e
      | Inr d \<Rightarrow>
         if \<not> truthy d \<or> \<not> truthy (elem0 d) \<or> \<not> truthy (getProp (elem0 d) ''embedding'')
         then Inl (JsError ''Error'' ''Invalid response format from Voyage AI API'')
         else Inr (getProp (elem0 d) ''embedding''))"

definition generateVoyageEmbedding ::
  "'s platform \<Rightarrow> string \<Rightarrow> string \<Rightarrow> 's world \<Rightarrow> (error + jsval) \<times> 's world" where
  "generateVoyageEmbedding P text' apiKey w =
     (let (r, s') = fetch P ''https://api.voyageai.com/v1/embeddings''
                      (voyageRequest text' apiKey) (outside w);
          w' = w\<lparr>outside := s'\<rparr>;
          attempt =
            (case r of
               FetchRejected e \<Rightarrow> Inl e
             | FetchResponse ok' st errorText js \<Rightarrow>
                 if \<not> ok'
                 then Inl (JsError ''Error''
                        (''Voyage AI API returned status '' @ showNat st @ '': '' @ errorText))
                 else (case js of Inl e \<Rightarrow> Inl e | Inr data \<Rightarrow> extractEmbedding data))
      in case attempt of
           Inl error' \<Rightarrow>
             (Inl (JsError ''Error'' (''Failed to generate embedding: '' @ errorMessage error')), w')
         | Inr embedding \<Rightarrow> (Inr embedding, w'))"

definition vectorSearchPipeline :: "jsval \<Rightarrow> int \<Rightarrow> jsval list" where
  "vectorSearchPipeline queryVector limitNum =
     [JObj [(''$vectorSearch'',
             JObj [(''index'', JStr ''vector_index''),
                   (''path'', JStr ''plot_embedding_voyage_3_large''),
                   (''queryVector'', queryVector),
                   (''numCandidates'', JNum (of_int (limitNum * 20))),
                   (''limit'', JNum (of_int limitNum))])],
      JObj [(''$project'',
             JObj [(''_id'', JNum 1),
                   (''score'', JObj [(''$meta'', JStr ''vectorSearchScore'')])])]]"

definition moviesPipeline :: "jsval list \<Rightarrow> jsval list" where
  "moviesPipeline movieIds =
     [JObj [(''$match'', JObj [(''_id'', JObj [(''$in'', JArr movieIds)])])],
      JObj [(''$project'',
             JObj [(''_id'', JNum 1), (''title'', JNum 1), (''plot'', JNum 1),
                   (''poster'', JNum 1), (''genres'', JNum 1), (''directors'', JNum 1),
                   (''cast'', JNum 1),
                   (''year'',
                    JObj [(''$cond'',
                      JObj [(''if'',
                             JObj [(''$and'',
                               JArr [JObj [(''$ne'', JArr [JStr ''$year'', JNull])],
                                     JObj [(''$eq'',
                                       JArr [JObj [(''$type'', JStr ''$year'')],
                                             JStr ''int''])]])]),
                            (''then'', JStr ''$year''),
                            (''else'', JNull)])])])]]"

text \<open>
  \<^verbatim>\<open>scoreMap\<close>: a \<^verbatim>\<open>Map\<close> from the printed identifier of each phase-1 document to its
  score; a later document with the same identifier replaces an earlier one.
\<close>

fun buildScoreMap ::
  "'s platform \<Rightarrow> jsval list \<Rightarrow> (string \<rightharpoonup> jsval) \<Rightarrow> error + (string \<rightharpoonup> jsval)" where
  "buildScoreMap P [] scoreMap = Inr scoreMap"
| "buildScoreMap P (doc # docs) scoreMap =
     (case member doc ''_id'' of
        Inl e \<Rightarrow> Inl e
      | Inr i \<Rightarrow>
         (case toStringMethod P i of
            Inl e \<Rightarrow> Inl e
          | Inr k \<Rightarrow> buildScoreMap P docs (scoreMap(k \<mapsto> getProp doc ''score''))))"

text \<open>\<^verbatim>\<open>scoreMap.get(k)\<close>.\<close>

definition mapGet :: "(string \<rightharpoonup> jsval) \<Rightarrow> string \<Rightarrow> jsval" where
  "mapGet m k = (case m k of None \<Rightarrow> JUndefined | Some v \<Rightarrow> v)"

text \<open>Step 3, the callback of \<^verbatim>\<open>movieResults.map\<close>.\<close>

definition combineMovie :: "'s platform \<Rightarrow> (string \<rightharpoonup> jsval) \<Rightarrow> jsval \<Rightarrow> error + jsval" where
  "combineMovie P scoreMap movie =
     (case member movie ''_id'' of
        Inl e \<Rightarrow> Inl e
      | Inr i \<Rightarrow>
         (case toStringMethod P i of
            Inl e \<Rightarrow> Inl e
          | Inr movieIdStr \<Rightarrow>
             (let score = jsOr (mapGet scoreMap movieIdStr) (JNum 0)
              in Inr (JObj [(''_id'', JStr movieIdStr),
                            (''title'', jsOr (getProp movie ''title'') (JStr [])),
                            (''plot'', getProp movie ''plot''),
                            (''poster'', getProp movie ''poster''),
                            (''year'', getProp movie ''year''),
                            (''genres'', jsOr (getProp movie ''genres'') (JArr [])),
                            (''directors'', jsOr (getProp movie ''directors'') (JArr [])),
                            (''cast'', jsOr (getProp movie ''cast'') (JArr [])),
                            (''score'', score)]))))"

text \<open>The comparator \<^verbatim>\<open>(a, b) => b.score - a.score\<close>.\<close>

definition byScoreDesc :: "'s platform \<Rightarrow> jsval \<Rightarrow> jsval \<Rightarrow> jsval" where
  "byScoreDesc P a b = jsMinus P (getProp b ''score'') (getProp a ''score'')"

text \<open>Step 3 and the sort together: from the score map and the re-fetched movies to the list sent.\<close>

definition mergeResults ::
  "'s platform \<Rightarrow> (string \<rightharpoonup> jsval) \<Rightarrow> jsval list \<Rightarrow> error + jsval list" where
  "mergeResults P scoreMap movieResults =
     (case mapThrowing (combineMovie P scoreMap) movieResults of
        Inl e \<Rightarrow> Inl e
      | Inr finalResults \<Rightarrow> Inr (arraySort (byScoreDesc P) finalResults))"

text \<open>\<^verbatim>\<open>results.toArray()\<close> is an array; anything else has no \<^verbatim>\<open>map\<close> to call.\<close>

fun asArray :: "jsval \<Rightarrow> error + jsval list" where
  "asArray (JArr xs) = Inr xs"
| "asArray v = Inl (JsError ''TypeError'' ''map is not a function'')"

text \<open>The body of the \<^verbatim>\<open>try\<close> block of \<^verbatim>\<open>vectorSearchMovies\<close>.\<close>

definition vectorSearchTry ::
  "'s platform \<Rightarrow> string \<Rightarrow> string \<Rightarrow> int \<Rightarrow> 's world \<Rightarrow> (error + response) \<times> 's world" where
  "vectorSearchTry P q apiKey limitNum w =
     (case generateVoyageEmbedding P (trim q) apiKey w of
        (Inl e, w1) \<Rightarrow> (Inl e, w1)
      | (Inr queryVector, w1) \<Rightarrow>
         (case getCollection ''embedded_movies'' w1 of
            Inl e \<Rightarrow> (Inl e, w1)
          | Inr embeddedMoviesCollection \<Rightarrow>
             (case await_store P
                     (Aggregate embeddedMoviesCollection
                        (vectorSearchPipeline queryVector limitNum)) w1 of
                (Inl e, w2) \<Rightarrow> (Inl e, w2)
              | (Inr vectorResults, w2) \<Rightarrow>
                 (case asArray vectorResults of
                    Inl e \<Rightarrow> (Inl e, w2)
                  | Inr docs \<Rightarrow>
                     if length docs = 0
                     then sendSuccess P w2 200 (JArr [])
                            (''No similar movies found for query: '' @ [CHR 0x27] @ q @ [CHR 0x27])
                     else
                      (case mapThrowing (\<lambda>doc. member doc ''_id'') docs of
                         Inl e \<Rightarrow> (Inl e, w2)
                       | Inr movieIds \<Rightarrow>
                          (case buildScoreMap P docs Map.empty of
                             Inl e \<Rightarrow> (Inl e, w2)
                           | Inr scoreMap \<Rightarrow>
                              (case getCollection ''movies'' w2 of
                                 Inl e \<Rightarrow> (Inl e, w2)
                               | Inr moviesCollection \<Rightarrow>
                                  (case await_store P
                                          (Aggregate moviesCollection (moviesPipeline movieIds))
                                          w2 of
                                     (Inl e, w3) \<Rightarrow> (Inl e, w3)
                                   | (Inr movieResults, w3) \<Rightarrow>
                                      (case asArray movieResults of
                                         Inl e \<Rightarrow> (Inl e, w3)
                                       | Inr movies \<Rightarrow>
                                          (case mergeResults P scoreMap movies of
                                             Inl e \<Rightarrow> (Inl e, w3)
                                           | Inr finalResults \<Rightarrow>
                                              sendSuccess P w3 200 (JArr finalResults)
                                                (''Found '' @ showNat (length finalResults)
                                                 @ '' similar movies for query: ''
                                                 @ [CHR 0x27] @ q @ [CHR 0x27])))))))))))"

definition vectorSearchMovies ::
  "'s platform \<Rightarrow> request \<Rightarrow> 's world \<Rightarrow> (error + response) \<times> 's world" where
  "vectorSearchMovies P req w =
     (let limit = withDefault (queryParam req ''limit'') ''10'' in
      case queryParam req ''q'' of
        Some (QStr q) \<Rightarrow>
          if q = [] \<or> length (trim q) = 0
          then sendError P w 400 ''Search query is required'' ''MISSING_QUERY_PARAMETER''
                 JUndefined
          else
           (case VOYAGE_API_KEY P of
              None \<Rightarrow>
                sendError P w 400
                  ''Vector search unavailable: VOYAGE_API_KEY not configured. Please add your API key to the .env file''
                  ''SERVICE_UNAVAILABLE'' JUndefined
            | Some apiKey \<Rightarrow>
                if apiKey = [] \<or> length (trim apiKey) = 0
                then sendError P w 400
                  ''Vector search unavailable: VOYAGE_API_KEY not configured. Please add your API key to the .env file''
                  ''SERVICE_UNAVAILABLE'' JUndefined
                else
                 (let limitNum = clampLimit limit 20 50 in
                  case vectorSearchTry P q apiKey limitNum w of
                    (Inl error', w') \<Rightarrow>
                      sendError P w' 500 ''Error performing vector search''
                        ''VECTOR_SEARCH_ERROR'' (JStr (errorMessage error'))
                  | (Inr r, w') \<Rightarrow> (Inr r, w')))
      | _ \<Rightarrow>
          sendError P w 400 ''Search query is required'' ''MISSING_QUERY_PARAMETER'' JUndefined)"


section \<open>Aggregation reports\<close>

text \<open>The data-quality stage \<^verbatim>\<open>{ year: { $type: "number", $gte: 1800, $lte: 2030 } }\<close>.\<close>

definition yearQuality :: "(string \<times> jsval) list" where
  "yearQuality =
     [(''year'', JObj [(''$type'', JStr ''number''), (''$gte'', JNum 1800), (''$lte'', JNum 2030)])]"

definition commentsPipeline :: "jsval option \<Rightarrow> int \<Rightarrow> bool \<Rightarrow> jsval list" where
  "commentsPipeline idFilter limitNum hasMovieId =
     [JObj [(''$match'',
             JObj (yearQuality @ (case idFilter of None \<Rightarrow> [] | Some oid \<Rightarrow> [(''_id'', oid)])))],
      JObj [(''$lookup'',
             JObj [(''from'', JStr ''comments''), (''localField'', JStr ''_id''),
                   (''foreignField'', JStr ''movie_id''), (''as'', JStr ''comments'')])],
      JObj [(''$match'', JObj [(''comments'', JObj [(''$ne'', JArr [])])])],
      JObj [(''$addFields'',
             JObj [(''recentComments'',
                    JObj [(''$slice'',
                      JArr [JObj [(''$sortArray'',
                              JObj [(''input'', JStr ''$comments''),
                                    (''sortBy'', JObj [(''date'', JNum (- 1))])])],
                            JNum (of_int limitNum)])]),
                   (''mostRecentCommentDate'', JObj [(''$max'', JStr ''$comments.date'')])])],
      JObj [(''$sort'', JObj [(''mostRecentCommentDate'', JNum (- 1))])],
      JObj [(''$limit'', JNum (if hasMovieId then 50 else 20))],
      JObj [(''$project'',
             JObj [(''title'', JNum 1), (''year'', JNum 1), (''genres'', JNum 1),
                   (''_id'', JNum 1), (''imdbRating'', JStr ''$imdb.rating''),
                   (''recentComments'',
                    JObj [(''$map'',
                      JObj [(''input'', JStr ''$recentComments''), (''as'', JStr ''comment''),
                            (''in'',
                             JObj [(''_id'', JStr ''$$comment._id''),
                                   (''userName'', JStr ''$$comment.name''),
                                   (''userEmail'', JStr ''$$comment.email''),
                                   (''text'', JStr ''$$comment.text''),
                                   (''date'', JStr ''$$comment.date'')])])]),
                   (''totalComments'', JObj [(''$size'', JStr ''$comments'')])])]]"

text \<open>The callbacks that turn identifiers into strings for the response.\<close>

definition processComment :: "'s platform \<Rightarrow> jsval \<Rightarrow> error + jsval" where
  "processComment P comment =
     (case member comment ''_id'' of
        Inl e \<Rightarrow> Inl e
      | Inr i \<Rightarrow>
         Inr (JObj [(''_id'', optChain i (\<lambda>v. JStr (jsToString P v))),
                    (''userName'', getProp comment ''userName''),
                    (''userEmail'', getProp comment ''userEmail''),
                    (''text'', getProp comment ''text''),
                    (''date'', getProp comment ''date'')]))"

definition processResult :: "'s platform \<Rightarrow> jsval \<Rightarrow> error + jsval" where
  "processResult P result =
     (case member result ''_id'' of
        Inl e \<Rightarrow> Inl e
      | Inr i \<Rightarrow>
         (case toStringMethod P i of
            Inl e \<Rightarrow> Inl e
          | Inr idStr \<Rightarrow>
             (case member (getProp result ''recentComments'') ''map'' of
                Inl e \<Rightarrow> Inl e
              | Inr _ \<Rightarrow>
                 (case asArray (getProp result ''recentComments'') of
                    Inl e \<Rightarrow> Inl e
                  | Inr comments \<Rightarrow>
                     (case mapThrowing (processComment P) comments of
                        Inl e \<Rightarrow> Inl e
                      | Inr recentComments \<Rightarrow>
                         Inr (JObj [(''_id'', JStr idStr),
                                    (''title'', getProp result ''title''),
                                    (''year'', getProp result ''year''),
                                    (''genres'', getProp result ''genres''),
                                    (''imdbRating'', getProp result ''imdbRating''),
                                    (''recentComments'', JArr recentComments),
                                    (''totalComments'', getProp result ''totalComments'')]))))))"

definition getMoviesWithMostRecentComments ::
  "'s platform \<Rightarrow> request \<Rightarrow> 's world \<Rightarrow> (error + response) \<times> 's world" where
  "getMoviesWithMostRecentComments P req w =
     (case getCollection ''movies'' w of
        Inl e \<Rightarrow> (Inl e, w)
      | Inr moviesCollection \<Rightarrow>
         (let limit = withDefault (queryParam req ''limit'') ''10'';
              movieId = queryParam req ''movieId'';
              limitNum = clampLimit limit 10 50;
              checked = (case movieId of Some (QStr m) \<Rightarrow> m \<noteq> [] | _ \<Rightarrow> False)
          in if checked \<and> \<not> objectIdIsValid P (qjs (the movieId))
             then sendError P w 400 ''Invalid movie ID format'' ''INVALID_OBJECT_ID'' JUndefined
             else
              (let idFilter = (if checked then Some (newObjectId P (qjs (the movieId))) else None);
                   pipeline = commentsPipeline idFilter limitNum (qtruthy movieId)
               in case await_store P (Aggregate moviesCollection pipeline) w of
                    (Inl e, w1) \<Rightarrow> (Inl e, w1)
                  | (Inr results, w1) \<Rightarrow>
                     (case asArray results of
                        Inl e \<Rightarrow> (Inl e, w1)
                      | Inr rs \<Rightarrow>
                         (case mapThrowing (processResult P) rs of
                            Inl e \<Rightarrow> (Inl e, w1)
                          | Inr processedResults \<Rightarrow>
                             (let totalComments =
                                    foldl (\<lambda>sum result.
                                             jsPlus P sum
                                               (jsOr (getProp result ''totalComments'') (JNum 0)))
                                          (JNum 0) processedResults;
                                  message =
                                    (if qtruthy movieId
                                     then ''Found '' @ jsToString P totalComments
                                          @ '' comments from movie''
                                     else ''Found '' @ jsToString P totalComments
                                          @ '' comments from ''
                                          @ showNat (length processedResults) @ '' movie''
                                          @ (if length processedResults \<noteq> 1 then ''s'' else []))
                              in sendSuccess P w1 200 (JArr processedResults) message))))))"

text \<open>
  The condition under which a rating enters the statistics of a year, and the three
  accumulators built on it.
\<close>

definition ratingIsDouble :: jsval where
  "ratingIsDouble =
     JObj [(''$and'',
       JArr [JObj [(''$ne'', JArr [JStr ''$imdb.rating'', JNull])],
             JObj [(''$ne'', JArr [JStr ''$imdb.rating'', JStr []])],
             JObj [(''$eq'', JArr [JObj [(''$type'', JStr ''$imdb.rating'')], JStr ''double''])]])]"

definition ratingAccumulator :: "string \<Rightarrow> jsval" where
  "ratingAccumulator acc =
     JObj [(acc, JObj [(''$cond'', JArr [ratingIsDouble, JStr ''$imdb.rating'', JStr ''$$REMOVE''])])]"

definition yearStatsPipeline :: "jsval list" where
  "yearStatsPipeline =
     [JObj [(''$match'', JObj yearQuality)],
      JObj [(''$group'',
             JObj [(''_id'', JStr ''$year''),
                   (''movieCount'', JObj [(''$sum'', JNum 1)]),
                   (''averageRating'', ratingAccumulator ''$avg''),
                   (''highestRating'', ratingAccumulator ''$max''),
                   (''lowestRating'', ratingAccumulator ''$min''),
                   (''totalVotes'', JObj [(''$sum'', JStr ''$imdb.votes'')])])],
      JObj [(''$project'',
             JObj [(''year'', JStr ''$_id''),
                   (''movieCount'', JNum 1),
                   (''averageRating'', JObj [(''$round'', JArr [JStr ''$averageRating'', JNum 2])]),
                   (''highestRating'', JNum 1),
                   (''lowestRating'', JNum 1),
                   (''totalVotes'', JNum 1),
                   (''_id'', JNum 0)])],
      JObj [(''$sort'', JObj [(''year'', JNum (- 1))])]]"

definition getMoviesByYearWithStats ::
  "'s platform \<Rightarrow> request \<Rightarrow> 's world \<Rightarrow> (error + response) \<times> 's world" where
  "getMoviesByYearWithStats P req w =
     (case getCollection ''movies'' w of
        Inl e \<Rightarrow> (Inl e, w)
      | Inr moviesCollection \<Rightarrow>
         (case await_store P (Aggregate moviesCollection yearStatsPipeline) w of
            (Inl e, w1) \<Rightarrow> (Inl e, w1)
          | (Inr results, w1) \<Rightarrow>
              sendSuccess P w1 200 results
                (''Aggregated statistics for '' @ lengthText results @ '' years'')))"




section \<open>A platform to run the handlers on\<close>

text \<open>
  \<^verbatim>\<open>Date.prototype.toISOString\<close> for a time in milliseconds since the epoch, for years up
  to 9999: the days are turned into a civil date of the proleptic Gregorian calendar.
\<close>

definition pad :: "nat \<Rightarrow> nat \<Rightarrow> string" where
  "pad width n = replicate (width - length (showNat n)) CHR ''0'' @ showNat n"

definition civil :: "nat \<Rightarrow> nat \<times> nat \<times> nat" where
  "civil days =
     (let z = days + 719468;
          era = z div 146097;
          doe = z mod 146097;
          yoe = (doe - doe div 1460 + doe div 36524 - doe div 146096) div 365;
          doy = doe - (365 * yoe + yoe div 4 - yoe div 100);
          mp = (5 * doy + 2) div 153;
          d = doy - (153 * mp + 2) div 5 + 1;
          m = (if mp < 10 then mp + 3 else mp - 9);
          y = yoe + era * 400 + (if m \<le> 2 then 1 else 0)
      in (y, m, d))"

definition isoString :: "nat \<Rightarrow> string" where
  "isoString t =
     (let secs = t div 1000;
          (y, m, d) = civil (secs div 86400)
      in pad 4 y @ ''-'' @ pad 2 m @ ''-'' @ pad 2 d @ ''T''
         @ pad 2 (secs div 3600 mod 24) @ '':'' @ pad 2 (secs div 60 mod 60) @ '':''
         @ pad 2 (secs mod 60) @ ''.'' @ pad 3 (t mod 1000) @ ''Z'')"

text \<open>
  The driver's rule for a string identifier: twenty-four hexadecimal digits. Values of
  another type are not identifiers here.
\<close>

definition isHexDigit :: "char \<Rightarrow> bool" where
  "isHexDigit c = (case digitValue c of None \<Rightarrow> False | Some d \<Rightarrow> d < 16)"

fun hex24 :: "jsval \<Rightarrow> bool" where
  "hex24 (JStr s) = (length s = 24 \<and> list_all isHexDigit s)"
| "hex24 v = False"

fun hexOf :: "jsval \<Rightarrow> string" where
  "hexOf (JStr s) = s"
| "hexOf v = []"

text \<open>
  The state of this outside world is its clock, in milliseconds; every call to the store
  or to the provider takes one millisecond. The store answers each operation by a fixed
  table, the provider gives one fixed answer. Numbers are parsed and printed as integers.
\<close>

definition samplePlatform ::
  "(store_op \<Rightarrow> error + jsval) \<Rightarrow> fetch_result \<Rightarrow> string option \<Rightarrow> nat platform" where
  "samplePlatform reply answer key =
     \<lparr>objectIdIsValid = hex24,
      newRegExp = (\<lambda>p f. Inr (JRegExp p f)),
      parseFloat = parseIntNumber,
      stringToNumber = parseIntNumber,
      numberToString = (\<lambda>r. showNat (nat \<lfloor>r\<rfloor>)),
      now = (\<lambda>s. s),
      toISOString = isoString,
      objectIdHex = hexOf,
      storeExec = (\<lambda>op s. (reply op, Suc s)),
      fetch = (\<lambda>url init s. (answer, Suc s)),
      VOYAGE_API_KEY = key\<rparr>"

text \<open>A store that answers every read with no document and every write with zero counts.\<close>

fun emptyStore :: "store_op \<Rightarrow> error + jsval" where
  "emptyStore (Find c f s l k) = Inr (JArr [])"
| "emptyStore (FindOne c f) = Inr JNull"
| "emptyStore (UpdateOne c f u) = Inr (JObj [(''matchedCount'', JNum 0), (''modifiedCount'', JNum 0)])"
| "emptyStore (UpdateMany c f u) = Inr (JObj [(''matchedCount'', JNum 0), (''modifiedCount'', JNum 0)])"
| "emptyStore (DeleteOne c f) = Inr (JObj [(''deletedCount'', JNum 0)])"
| "emptyStore (DeleteMany c f) = Inr (JObj [(''deletedCount'', JNum 0)])"
| "emptyStore (FindOneAndDelete c f) = Inr JNull"
| "emptyStore (Aggregate c p) = Inr (JArr [])"

definition noAnswer :: fetch_result where
  "noAnswer = FetchRejected (JsError ''TypeError'' ''fetch failed'')"

text \<open>A connected world at time \<open>t\<close> with no operation sent yet.\<close>

definition world0 :: "nat \<Rightarrow> nat world" where
  "world0 t = \<lparr>outside = t, database = True, calls = []\<rparr>"

definition request0 :: request where
  "request0 = \<lparr>params_id = [], query = [], body = JObj []\<rparr>"


section \<open>Sample requests and notions used in the statements\<close>

text \<open>A batch body whose second identifier is malformed.\<close>

definition batchBody :: jsval where
  "batchBody =
     JObj [(''filter'',
            JObj [(''_id'', JObj [(''$in'', JArr [JStr ''507f1f77bcf86cd799439011'',
                                                  JStr ''invalid-id''])])]),
           (''update'', JObj [(''rated'', JStr ''PG'')])]"



text \<open>The score a result carries, read as a rational (zero when it is not a Number).\<close>

definition scoreOf :: "jsval \<Rightarrow> rat" where
  "scoreOf r = (case getProp r ''score'' of JNum x \<Rightarrow> x | _ \<Rightarrow> 0)"

text \<open>A score map, or a list of documents, whose scores are all Numbers.\<close>

fun isNumber :: "jsval \<Rightarrow> bool" where
  "isNumber (JNum x) = True"
| "isNumber v = False"

definition numericMap :: "(string \<rightharpoonup> jsval) \<Rightarrow> bool" where
  "numericMap m = (\<forall>k v. m k = Some v \<longrightarrow> isNumber v)"




text \<open>
  A store for the vector search: phase 1 finds two embedded movies, the re-fetch returns
  them in the opposite order of their scores, together with a third movie that phase 1
  did not score. The provider answers with a one-dimensional embedding.
\<close>

definition vectorDocs :: "jsval list" where
  "vectorDocs =
     [JObj [(''_id'', JObjectId ''507f1f77bcf86cd799439011''), (''score'', JNum (85 / 100))],
      JObj [(''_id'', JObjectId ''507f1f77bcf86cd799439012''), (''score'', JNum (78 / 100))]]"

definition vectorMovies :: "jsval list" where
  "vectorMovies =
     [JObj [(''_id'', JObjectId ''507f1f77bcf86cd799439013''), (''title'', JStr ''Unscored'')],
      JObj [(''_id'', JObjectId ''507f1f77bcf86cd799439012''), (''title'', JStr ''Space Quest'')],
      JObj [(''_id'', JObjectId ''507f1f77bcf86cd799439011''), (''title'', JStr ''Space Raiders'')]]"

fun vectorStore :: "store_op \<Rightarrow> error + jsval" where
  "vectorStore (Aggregate c p) =
     (if c = ''embedded_movies'' then Inr (JArr vectorDocs) else Inr (JArr vectorMovies))"
| "vectorStore op = Inr JNull"

definition embeddingAnswer :: fetch_result where
  "embeddingAnswer =
     FetchResponse True 200 []
       (Inr (JObj [(''data'', JArr [JObj [(''embedding'', JArr [JNum 1])]])]))"

text \<open>The score map that the handler builds from \<open>vectorDocs\<close>.\<close>

definition vectorScoreMap :: "string \<rightharpoonup> jsval" where
  "vectorScoreMap =
     [''507f1f77bcf86cd799439011'' \<mapsto> JNum (85 / 100),
      ''507f1f77bcf86cd799439012'' \<mapsto> JNum (78 / 100)]"


section \<open>The year statistics pipeline, interpreted\<close>

text \<open>
  \<^verbatim>\<open>getMoviesByYearWithStats\<close> is a pipeline in the store's aggregation language; what it
  computes is the meaning of that pipeline. The fragment of the language that the pipeline
  uses is given a semantics here, after the store's manual, over stored values with their
  types. A stored number is the rational it denotes, with its type (binary floating point
  is not modelled); an array is the list of its elements; a value of any other type is
  opaque. A document is the list of the values found at its dotted paths.
\<close>

datatype numtype = TInt | TLong | TDouble | TDecimal

datatype othertype =
  TObject | TBinData | TObjectId | TDate | TRegex | TJavascript | TTimestamp

datatype bson =
    BMissing
  | BNull
  | BBool bool
  | BNum numtype rat
  | BString string
  | BArray "bson list"
  | BOther othertype

type_synonym doc = "(string \<times> bson) list"

definition field :: "doc \<Rightarrow> string \<Rightarrow> bson" where
  "field d p = (case map_of d p of None \<Rightarrow> BMissing | Some v \<Rightarrow> v)"

fun typeName :: "bson \<Rightarrow> string" where
  "typeName BMissing = ''missing''"
| "typeName BNull = ''null''"
| "typeName (BBool b) = ''bool''"
| "typeName (BNum TInt x) = ''int''"
| "typeName (BNum TLong x) = ''long''"
| "typeName (BNum TDouble x) = ''double''"
| "typeName (BNum TDecimal x) = ''decimal''"
| "typeName (BString s) = ''string''"
| "typeName (BArray xs) = ''array''"
| "typeName (BOther TObject) = ''object''"
| "typeName (BOther TBinData) = ''binData''"
| "typeName (BOther TObjectId) = ''objectId''"
| "typeName (BOther TDate) = ''date''"
| "typeName (BOther TRegex) = ''regex''"
| "typeName (BOther TJavascript) = ''javascript''"
| "typeName (BOther TTimestamp) = ''timestamp''"

text \<open>
  Equality of values: numbers are compared by value, whatever their types, and arrays
  element by element.
\<close>

fun bsonEq :: "bson \<Rightarrow> bson \<Rightarrow> bool"
  and bsonEqs :: "bson list \<Rightarrow> bson list \<Rightarrow> bool" where
  "bsonEq (BNum s x) (BNum t y) = (x = y)"
| "bsonEq (BArray xs) (BArray ys) = bsonEqs xs ys"
| "bsonEq a b = (a = b)"
| "bsonEqs [] [] = True"
| "bsonEqs (x # xs) (y # ys) = (bsonEq x y \<and> bsonEqs xs ys)"
| "bsonEqs xs ys = False"

text \<open>What counts as true in \<^verbatim>\<open>$and\<close> and \<^verbatim>\<open>$cond\<close>.\<close>

fun truthyB :: "bson \<Rightarrow> bool" where
  "truthyB BMissing = False"
| "truthyB BNull = False"
| "truthyB (BBool b) = b"
| "truthyB (BNum t x) = (x \<noteq> 0)"
| "truthyB v = True"

text \<open>A number written in the pipeline: an integer when it has no fraction.\<close>

definition literalNum :: "rat \<Rightarrow> bson" where
  "literalNum r = (if r = of_int \<lfloor>r\<rfloor> then BNum TInt r else BNum TDouble r)"

text \<open>\<^verbatim>\<open>$round\<close>: to the nearest multiple of \<open>10^-places\<close>, a tie going to the even digit.\<close>

definition roundHalfEven :: "rat \<Rightarrow> int" where
  "roundHalfEven r =
     (let f = \<lfloor>r\<rfloor>; d = r - of_int f
      in if d < 1 / 2 then f
         else if 1 / 2 < d then f + 1
         else if even f then f else f + 1)"

definition roundPlaces :: "rat \<Rightarrow> nat \<Rightarrow> rat" where
  "roundPlaces r places = of_int (roundHalfEven (r * 10 ^ places)) / 10 ^ places"

fun roundOp :: "bson \<Rightarrow> bson \<Rightarrow> bson option" where
  "roundOp BNull p = Some BNull"
| "roundOp BMissing p = Some BNull"
| "roundOp (BNum t x) (BNum s p) =
     (if 0 \<le> p \<and> p = of_int \<lfloor>p\<rfloor> then Some (BNum t (roundPlaces x (nat \<lfloor>p\<rfloor>))) else None)"
| "roundOp v p = None"

text \<open>The operators of the fragment, applied to evaluated arguments.\<close>

definition applyOp :: "string \<Rightarrow> bson list \<Rightarrow> bson option" where
  "applyOp opr vs =
     (if opr = ''$and'' then Some (BBool (list_all truthyB vs))
      else if opr = ''$cond'' then
        (case vs of [c, t, e] \<Rightarrow> Some (if truthyB c then t else e) | _ \<Rightarrow> None)
      else if opr = ''$eq'' then
        (case vs of [a, b] \<Rightarrow> Some (BBool (bsonEq a b)) | _ \<Rightarrow> None)
      else if opr = ''$ne'' then
        (case vs of [a, b] \<Rightarrow> Some (BBool (\<not> bsonEq a b)) | _ \<Rightarrow> None)
      else if opr = ''$round'' then
        (case vs of [x, p] \<Rightarrow> roundOp x p | _ \<Rightarrow> None)
      else None)"

text \<open>
  An expression on a document: \<^verbatim>\<open>"$path"\<close> reads a field, \<^verbatim>\<open>"$$REMOVE"\<close> is the missing
  value, \<^verbatim>\<open>{ $type: e }\<close> names the type, any other \<^verbatim>\<open>{ $op: [args] }\<close> applies an operator.
  \<open>None\<close> stands for an expression outside the fragment.
\<close>

fun evalExpr :: "doc \<Rightarrow> jsval \<Rightarrow> bson option"
  and evalArgs :: "doc \<Rightarrow> jsval list \<Rightarrow> bson list option" where
  "evalExpr d (JStr s) =
     Some (if s = ''$$REMOVE'' then BMissing
           else if take 1 s = ''$'' then field d (tl s)
           else BString s)"
| "evalExpr d JNull = Some BNull"
| "evalExpr d (JBool b) = Some (BBool b)"
| "evalExpr d (JNum r) = Some (literalNum r)"
| "evalExpr d (JObj [(opr, JArr args)]) =
     (case evalArgs d args of None \<Rightarrow> None | Some vs \<Rightarrow> applyOp opr vs)"
| "evalExpr d (JObj [(opr, JStr s)]) =
     (if opr = ''$type'' then map_option (\<lambda>v. BString (typeName v)) (evalExpr d (JStr s))
      else None)"
| "evalExpr d e = None"
| "evalArgs d [] = Some []"
| "evalArgs d (e # es) =
     (case evalExpr d e of
        None \<Rightarrow> None
      | Some v \<Rightarrow> (case evalArgs d es of None \<Rightarrow> None | Some vs \<Rightarrow> Some (v # vs)))"

text \<open>Numbers among values, and the accumulators of \<^verbatim>\<open>$group\<close>.\<close>

fun numbersOf :: "bson list \<Rightarrow> (numtype \<times> rat) list" where
  "numbersOf [] = []"
| "numbersOf (BNum t x # vs) = (t, x) # numbersOf vs"
| "numbersOf (v # vs) = numbersOf vs"

fun wider :: "numtype \<Rightarrow> numtype \<Rightarrow> numtype" where
  "wider TDecimal t = TDecimal"
| "wider t TDecimal = TDecimal"
| "wider TDouble t = TDouble"
| "wider t TDouble = TDouble"
| "wider TLong t = TLong"
| "wider t TLong = TLong"
| "wider TInt TInt = TInt"

text \<open>
  \<^verbatim>\<open>$sum\<close>: values that are not numbers are ignored (an array among them: \<^verbatim>\<open>$group\<close> does
  not look into it); the sum has the widest type met. A sum that outgrows its integer
  type, which the store then widens, is not modelled.
\<close>

definition sumNums :: "(numtype \<times> rat) list \<Rightarrow> bson" where
  "sumNums ns = BNum (foldl wider TInt (map fst ns)) (foldl (+) 0 (map snd ns))"

text \<open>\<^verbatim>\<open>$avg\<close>: values that are not numbers are ignored; null when no number is left.\<close>

definition avgNums :: "(numtype \<times> rat) list \<Rightarrow> bson" where
  "avgNums ns =
     (if ns = [] then BNull
      else BNum (foldl wider TDouble (map fst ns))
                (foldl (+) 0 (map snd ns) / of_nat (length ns)))"

text \<open>
  \<^verbatim>\<open>$max\<close> and \<^verbatim>\<open>$min\<close>: null and missing values are ignored; null when nothing is left.
  Only numbers are compared in this fragment; the first extremal one is returned.
\<close>

fun isNullish :: "bson \<Rightarrow> bool" where
  "isNullish BMissing = True"
| "isNullish BNull = True"
| "isNullish v = False"

fun isNumB :: "bson \<Rightarrow> bool" where
  "isNumB (BNum t x) = True"
| "isNumB v = False"

fun numVal :: "bson \<Rightarrow> rat" where
  "numVal (BNum t x) = x"
| "numVal v = 0"

definition extremum :: "(rat \<Rightarrow> rat \<Rightarrow> bool) \<Rightarrow> bson list \<Rightarrow> bson option" where
  "extremum better vs =
     (case filter (\<lambda>v. \<not> isNullish v) vs of
        [] \<Rightarrow> Some BNull
      | w # ws \<Rightarrow>
          if list_all isNumB (w # ws)
          then Some (foldl (\<lambda>best v. if better (numVal v) (numVal best) then v else best) w ws)
          else None)"

definition accumulate :: "string \<Rightarrow> bson list \<Rightarrow> bson option" where
  "accumulate acc vs =
     (if acc = ''$sum'' then Some (sumNums (numbersOf vs))
      else if acc = ''$avg'' then Some (avgNums (numbersOf vs))
      else if acc = ''$max'' then extremum (\<lambda>a b. b < a) vs
      else if acc = ''$min'' then extremum (\<lambda>a b. a < b) vs
      else None)"

text \<open>
  \<^verbatim>\<open>$match\<close> on one field: every condition must hold of the value at the path. A
  condition holds of an array when it holds of the array itself or of one of its
  elements, so that different conditions may be met by different elements.
\<close>

fun isArrayB :: "bson \<Rightarrow> bool" where
  "isArrayB (BArray xs) = True"
| "isArrayB v = False"

definition matchValue :: "bson \<Rightarrow> string \<times> jsval \<Rightarrow> bool option" where
  "matchValue v c =
     (case c of
        (opr, JStr t) \<Rightarrow>
          if opr = ''$type'' then Some (if t = ''number'' then isNumB v else typeName v = t)
          else None
      | (opr, JNum n) \<Rightarrow>
          if opr = ''$gte'' then Some (isNumB v \<and> n \<le> numVal v)
          else if opr = ''$lte'' then Some (isNumB v \<and> numVal v \<le> n)
          else None
      | _ \<Rightarrow> None)"

definition matchCond :: "bson \<Rightarrow> string \<times> jsval \<Rightarrow> bool option" where
  "matchCond v c =
     (case v of
        BArray xs \<Rightarrow>
          (case matchValue v c of
             None \<Rightarrow> None
           | Some b \<Rightarrow>
              (case those (map (\<lambda>x. matchValue x c) xs) of
                 None \<Rightarrow> None
               | Some bs \<Rightarrow> Some (b \<or> list_ex (\<lambda>e. e) bs)))
      | _ \<Rightarrow> matchValue v c)"

fun allSome :: "('a \<Rightarrow> bool option) \<Rightarrow> 'a list \<Rightarrow> bool option" where
  "allSome p [] = Some True"
| "allSome p (x # xs) =
     (case p x of
        None \<Rightarrow> None
      | Some b \<Rightarrow> (case allSome p xs of None \<Rightarrow> None | Some c \<Rightarrow> Some (b \<and> c)))"

definition matchDoc :: "(string \<times> jsval) list \<Rightarrow> doc \<Rightarrow> bool option" where
  "matchDoc specs d =
     allSome (\<lambda>spec. case spec of
                       (path, JObj conds) \<Rightarrow> allSome (matchCond (field d path)) conds
                     | _ \<Rightarrow> None) specs"

fun filterSome :: "('a \<Rightarrow> bool option) \<Rightarrow> 'a list \<Rightarrow> 'a list option" where
  "filterSome p [] = Some []"
| "filterSome p (x # xs) =
     (case p x of
        None \<Rightarrow> None
      | Some b \<Rightarrow>
         (case filterSome p xs of
            None \<Rightarrow> None
          | Some ys \<Rightarrow> Some (if b then x # ys else ys)))"

text \<open>
  \<^verbatim>\<open>$group\<close>: one output document for each distinct value of the key, in the order of
  first occurrence (the store fixes no order; the pipeline sorts afterwards). A missing
  key groups with null.
\<close>

fun distinctKeys :: "bson list \<Rightarrow> bson list" where
  "distinctKeys [] = []"
| "distinctKeys (k # ks) = k # filter (\<lambda>k'. \<not> bsonEq k' k) (distinctKeys ks)"

definition groupKey :: "jsval \<Rightarrow> doc \<Rightarrow> bson option" where
  "groupKey keyExpr d =
     map_option (\<lambda>v. if v = BMissing then BNull else v) (evalExpr d keyExpr)"

definition accumulateField :: "doc list \<Rightarrow> string \<times> jsval \<Rightarrow> (string \<times> bson) option" where
  "accumulateField members spec =
     (case spec of
        (name, JObj [(acc, e)]) \<Rightarrow>
          (case those (map (\<lambda>d. evalExpr d e) members) of
             None \<Rightarrow> None
           | Some vs \<Rightarrow> map_option (\<lambda>v. (name, v)) (accumulate acc vs))
      | _ \<Rightarrow> None)"

definition groupStage :: "(string \<times> jsval) list \<Rightarrow> doc list \<Rightarrow> doc list option" where
  "groupStage spec docs =
     (case spec of
        (idName, keyExpr) # accs \<Rightarrow>
          if idName \<noteq> ''_id'' then None
          else
           (case those (map (groupKey keyExpr) docs) of
              None \<Rightarrow> None
            | Some keys \<Rightarrow>
                those (map (\<lambda>k.
                  map_option (\<lambda>fs. (''_id'', k) # fs)
                    (those (map (accumulateField
                                   [d \<leftarrow> docs. map_option (\<lambda>k'. bsonEq k' k) (groupKey keyExpr d)
                                                  = Some True]) accs)))
                  (distinctKeys keys)))
      | [] \<Rightarrow> None)"

text \<open>
  \<^verbatim>\<open>$project\<close>: \<open>1\<close> keeps a field, \<open>_id: 0\<close> drops the identifier, anything else is an
  expression; a field whose value is missing is left out.
\<close>

definition projectField :: "doc \<Rightarrow> string \<times> jsval \<Rightarrow> (string \<times> bson) list option" where
  "projectField d spec =
     (case spec of (name, e) \<Rightarrow>
        if e = JNum 1 then Some (if field d name = BMissing then [] else [(name, field d name)])
        else if e = JNum 0 then (if name = ''_id'' then Some [] else None)
        else (case evalExpr d e of
                None \<Rightarrow> None
              | Some v \<Rightarrow> Some (if v = BMissing then [] else [(name, v)])))"

definition projectStage :: "(string \<times> jsval) list \<Rightarrow> doc list \<Rightarrow> doc list option" where
  "projectStage spec docs =
     those (map (\<lambda>d.
       map_option (\<lambda>fss. (if ''_id'' \<in> set (map fst spec) \<or> field d ''_id'' = BMissing then []
                          else [(''_id'', field d ''_id'')]) @ concat fss)
         (those (map (projectField d) spec))) docs)"

text \<open>
  \<^verbatim>\<open>$sort\<close> on one field, \<open>1\<close> for ascending and \<open>-1\<close> for descending. A number sorts by
  its value; an array sorts by its least element when ascending and by its greatest when
  descending (arrays of numbers only in this fragment). The key is the value times the
  direction, so that both directions sort by ascending key. Documents with equal keys
  stay in their order of arrival (the store fixes no order for them).
\<close>

definition sortKey :: "rat \<Rightarrow> bson \<Rightarrow> rat option" where
  "sortKey dir v =
     (case v of
        BNum t x \<Rightarrow> Some (dir * x)
      | BArray xs \<Rightarrow>
          if xs \<noteq> [] \<and> list_all isNumB xs
          then Some (Min (set (map (\<lambda>x. dir * numVal x) xs)))
          else None
      | _ \<Rightarrow> None)"

definition sortStage :: "(string \<times> jsval) list \<Rightarrow> doc list \<Rightarrow> doc list option" where
  "sortStage spec docs =
     (case spec of
        [(path, JNum dir)] \<Rightarrow>
          if dir \<noteq> 1 \<and> dir \<noteq> - 1 then None
          else if \<not> list_all (\<lambda>d. sortKey dir (field d path) \<noteq> None) docs then None
          else Some (sort_key (\<lambda>d. the (sortKey dir (field d path))) docs)
      | _ \<Rightarrow> None)"

definition runStage :: "jsval \<Rightarrow> doc list \<Rightarrow> doc list option" where
  "runStage stage docs =
     (case stage of
        JObj [(name, JObj spec)] \<Rightarrow>
          if name = ''$match'' then filterSome (matchDoc spec) docs
          else if name = ''$group'' then groupStage spec docs
          else if name = ''$project'' then projectStage spec docs
          else if name = ''$sort'' then sortStage spec docs
          else None
      | _ \<Rightarrow> None)"

fun runPipeline :: "jsval list \<Rightarrow> doc list \<Rightarrow> doc list option" where
  "runPipeline [] docs = Some docs"
| "runPipeline (stage # stages) docs =
     (case runStage stage docs of None \<Rightarrow> None | Some docs' \<Rightarrow> runPipeline stages docs')"

section \<open>The year statistics report, as specified\<close>

text \<open>
  The report in the words of its specification: movies with a numeric year from 1800 to
  2030, grouped by year; for each year the number of movies, the average (rounded to two
  decimal places), the highest and the lowest of the ratings that are stored as doubles,
  and the sum of the vote counts; the years in descending order. Rounding, the ratings
  that count and the vote counts are defined here on their own, without the operators of
  the interpreter.
\<close>

definition numericYearInRange :: "doc \<Rightarrow> bool" where
  "numericYearInRange d =
     (isNumB (field d ''year'') \<and> 1800 \<le> numVal (field d ''year'')
      \<and> numVal (field d ''year'') \<le> 2030)"

definition doubleRating :: "doc \<Rightarrow> rat option" where
  "doubleRating d = (case field d ''imdb.rating'' of BNum TDouble x \<Rightarrow> Some x | _ \<Rightarrow> None)"

definition doubleRatings :: "doc list \<Rightarrow> rat list" where
  "doubleRatings ds = List.map_filter doubleRating ds"

text \<open>
  Rounding to two decimal places: of the two neighbouring hundredths the nearer one, and
  the even one when the number lies half-way between them.
\<close>

definition nearestHundredth :: "rat \<Rightarrow> rat" where
  "nearestHundredth r =
     (let below = of_int \<lfloor>r * 100\<rfloor> / 100; above = below + 1 / 100
      in if r - below < above - r then below
         else if above - r < r - below then above
         else if even \<lfloor>r * 100\<rfloor> then below else above)"

text \<open>
  The vote count of a movie: the number stored, nothing when no number is stored. Their
  sum is an integer unless one of them is stored in a wider type.
\<close>

definition voteCount :: "doc \<Rightarrow> rat" where
  "voteCount d = (case field d ''imdb.votes'' of BNum t x \<Rightarrow> x | _ \<Rightarrow> 0)"

definition voteTypes :: "doc list \<Rightarrow> numtype list" where
  "voteTypes ms =
     List.map_filter (\<lambda>d. case field d ''imdb.votes'' of BNum t x \<Rightarrow> Some t | _ \<Rightarrow> None) ms"

definition votesType :: "doc list \<Rightarrow> numtype" where
  "votesType ms =
     (if TDecimal \<in> set (voteTypes ms) then TDecimal
      else if TDouble \<in> set (voteTypes ms) then TDouble
      else if TLong \<in> set (voteTypes ms) then TLong
      else TInt)"

definition yearStatistics :: "bson \<Rightarrow> doc list \<Rightarrow> doc" where
  "yearStatistics y ms =
     (let rs = doubleRatings ms in
      [(''year'', y),
       (''movieCount'', BNum TInt (of_nat (length ms))),
       (''averageRating'',
        if rs = [] then BNull
        else BNum TDouble (nearestHundredth (sum_list rs / of_nat (length rs)))),
       (''highestRating'', if rs = [] then BNull else BNum TDouble (Max (set rs))),
       (''lowestRating'', if rs = [] then BNull else BNum TDouble (Min (set rs))),
       (''totalVotes'', BNum (votesType ms) (sum_list (map voteCount ms)))])"

definition yearStatsReport :: "doc list \<Rightarrow> doc list" where
  "yearStatsReport docs =
     (let good = filter numericYearInRange docs;
          years = distinctKeys (map (\<lambda>d. field d ''year'') good)
      in sort_key (\<lambda>g. - numVal (field g ''year''))
           (map (\<lambda>y. yearStatistics y [d \<leftarrow> good. numVal (field d ''year'') = numVal y]) years))"

text \<open>What \<^verbatim>\<open>$group\<close> holds for one year before the projection rounds and renames.\<close>

definition yearGroup :: "bson \<Rightarrow> doc list \<Rightarrow> doc" where
  "yearGroup y ms =
     (let rs = doubleRatings ms in
      [(''_id'', y),
       (''movieCount'', BNum TInt (of_nat (length ms))),
       (''averageRating'',
        if rs = [] then BNull else BNum TDouble (sum_list rs / of_nat (length rs))),
       (''highestRating'', if rs = [] then BNull else BNum TDouble (Max (set rs))),
       (''lowestRating'', if rs = [] then BNull else BNum TDouble (Min (set rs))),
       (''totalVotes'', BNum (votesType ms) (sum_list (map voteCount ms)))])"

text \<open>
  A small collection. Four movies of 2023, one of them with its year stored as a double:
  three ratings stored as doubles (8, 9 and 8, whose average 8.333... needs rounding) and
  one stored as an integer; their vote counts are an integer, a long, a string and a
  missing one. One movie of 1999 without rating, its vote count a string. One movie of
  1987 whose rating 8.125 lies half-way between two hundredths, its vote count a double.
  A movie whose year is a string and one whose year is out of range.
\<close>

definition sampleMovies :: "doc list" where
  "sampleMovies =
     [[(''year'', BNum TInt 1999), (''title'', BString ''A''), (''imdb.votes'', BString ''n/a'')],
      [(''year'', BNum TInt 2023), (''imdb.rating'', BNum TDouble 8),
       (''imdb.votes'', BNum TInt 100)],
      [(''year'', BString ''2006x''), (''imdb.rating'', BNum TDouble 5)],
      [(''year'', BNum TDouble 2023), (''imdb.rating'', BNum TDouble 9),
       (''imdb.votes'', BNum TLong 50)],
      [(''year'', BNum TInt 1987), (''imdb.rating'', BNum TDouble (65 / 8)),
       (''imdb.votes'', BNum TDouble (21 / 2))],
      [(''year'', BNum TInt 2023), (''imdb.rating'', BNum TInt 7)],
      [(''year'', BNum TInt 2023), (''imdb.rating'', BNum TDouble 8),
       (''imdb.votes'', BString ''many'')],
      [(''year'', BNum TInt 1700), (''imdb.rating'', BNum TDouble 3)]]"

text \<open>
  A movie whose year is an array, none of whose elements lies between 1800 and 2030, and a
  movie of 1999.
\<close>

definition arrayYearMovies :: "doc list" where
  "arrayYearMovies =
     [[(''year'', BNum TInt 1999), (''imdb.rating'', BNum TDouble 6)],
      [(''year'', BArray [BNum TInt 1700, BNum TInt 2100]), (''imdb.rating'', BNum TDouble 7)]]"

text \<open>
  A store that holds a collection of movies and answers an aggregation on \<^verbatim>\<open>movies\<close> with
  the meaning of its pipeline, the documents written as the driver hands them over.
\<close>

fun renderBson :: "bson \<Rightarrow> jsval" where
  "renderBson BMissing = JUndefined"
| "renderBson BNull = JNull"
| "renderBson (BBool b) = JBool b"
| "renderBson (BNum t x) = JNum x"
| "renderBson (BString s) = JStr s"
| "renderBson (BArray xs) = JArr (map renderBson xs)"
| "renderBson (BOther t) = JObj []"

definition renderDoc :: "doc \<Rightarrow> jsval" where
  "renderDoc d = JObj (map (\<lambda>kv. (fst kv, renderBson (snd kv))) d)"

fun movieStore :: "doc list \<Rightarrow> store_op \<Rightarrow> error + jsval" where
  "movieStore movies (Aggregate c pl) =
     (if c = ''movies''
      then (case runPipeline pl movies of
              None \<Rightarrow> Inl (MongoError (JNum 40324) ''Unrecognized pipeline stage name'')
            | Some rows \<Rightarrow> Inr (JArr (map renderDoc rows)))
      else Inr (JArr []))"
| "movieStore movies op = Inr JNull"

section \<open>Verified properties\<close>

subsection \<open>The response envelope\<close>

text \<open>
  C4. An envelope built by \<^verbatim>\<open>createSuccessResponse\<close> has the fields success, message, data
  and timestamp, with success true and the data passed through; one built by
  \<^verbatim>\<open>createErrorResponse\<close> has the fields success, message, error and timestamp, with
  success false. So a success envelope has data and no error, a failure envelope has error
  and no data. In both, the timestamp is the platform's ISO rendering of the clock as read
  when the constructor runs; in a handler that is after its store calls, as the last line
  of the example shows.
\<close>

theorem envelope_data_xor_error:
  "ownKeys (createSuccessResponse P s d m) = [''success'', ''message'', ''data'', ''timestamp'']
   \<and> getProp (createSuccessResponse P s d m) ''success'' = JBool True
   \<and> getProp (createSuccessResponse P s d m) ''data'' = d
   \<and> getProp (createSuccessResponse P s d m) ''timestamp'' = JStr (toISOString P (now P s))
   \<and> ownKeys (createErrorResponse P s msg c dt) = [''success'', ''message'', ''error'', ''timestamp'']
   \<and> getProp (createErrorResponse P s msg c dt) ''success'' = JBool False
   \<and> getProp (createErrorResponse P s msg c dt) ''timestamp'' = JStr (toISOString P (now P s))"
  by (simp add: createSuccessResponse_def createErrorResponse_def)

theorem envelope_data_xor_error_witness:
  "ownKeys (createSuccessResponse (samplePlatform emptyStore noAnswer None) 1762156800123
             (JArr []) None) = [''success'', ''message'', ''data'', ''timestamp'']
   \<and> getProp (createSuccessResponse (samplePlatform emptyStore noAnswer None) 1762156800123
             (JArr []) None) ''timestamp'' = JStr (isoString 1762156800123)
   \<and> ownKeys (createErrorResponse (samplePlatform emptyStore noAnswer None) 1762156800123
             ''Movie not found'' (Some ''MOVIE_NOT_FOUND'') JUndefined)
       = [''success'', ''message'', ''error'', ''timestamp'']
   \<and> getProp (createErrorResponse (samplePlatform emptyStore noAnswer None) 1762156800123
             ''Movie not found'' (Some ''MOVIE_NOT_FOUND'') JUndefined) ''timestamp''
       = JStr (isoString 1762156800123)
   \<and> getProp (json (fst (asyncHandler getMovieById (samplePlatform emptyStore noAnswer None)
             (request0\<lparr>params_id := ''507f1f77bcf86cd799439011''\<rparr>) (world0 1762156800123))))
         ''timestamp'' = JStr (isoString 1762156800124)"
proof -
  have late: "getProp (json (fst (asyncHandler getMovieById
             (samplePlatform emptyStore noAnswer None)
             (request0\<lparr>params_id := ''507f1f77bcf86cd799439011''\<rparr>) (world0 1762156800123))))
         ''timestamp'' = JStr (isoString 1762156800124)"
    by (simp add: asyncHandler_def getMovieById_def getCollection_def await_store_def
        sendError_def createErrorResponse_def samplePlatform_def request0_def world0_def
        newObjectId_def isHexDigit_def digitValue_def)
  show ?thesis
    using envelope_data_xor_error [of "samplePlatform emptyStore noAnswer None" 1762156800123
        "JArr []" None "''Movie not found''" "Some ''MOVIE_NOT_FOUND''" JUndefined] late
    by (simp add: samplePlatform_def)
qed

subsection \<open>Batch operations\<close>

lemma convertIds_Inr_valid:
  "convertIds P ids = Inr os \<Longrightarrow> x \<in> set ids \<Longrightarrow> objectIdIsValid P x"
  by (induction ids arbitrary: os) (auto split: if_splits sum.splits)

lemma convertIds_invalid:
  "\<exists>x\<in>set ids. \<not> objectIdIsValid P x \<Longrightarrow> \<exists>e. convertIds P ids = Inl e"
  by (cases "convertIds P ids") (auto dest: convertIds_Inr_valid)

lemma processFilter_invalid:
  assumes "getProp (getProp f ''_id'') ''$in'' = JArr ids"
    and "\<exists>x\<in>set ids. \<not> objectIdIsValid P x"
  shows "\<exists>e. processFilter P f = Inl e"
proof -
  from assms(1) have t: "truthy (getProp f ''_id'')"
    by (cases "getProp f ''_id''") auto
  from convertIds_invalid[OF assms(2)] obtain e where "convertIds P ids = Inl e" by blast
  with assms(1) t show ?thesis by (simp add: processFilter_def)
qed




text \<open>
  C7. When the filter of a batch update or batch delete carries an array under
  \<^verbatim>\<open>_id.$in\<close> and one entry of it is not a valid identifier, the request fails and the
  world is returned as it was: the store received neither the update nor the delete, nor
  any other operation.
\<close>

theorem batch_invalid_id_atomic:
  assumes "getProp (getProp (getProp (body req) ''filter'') ''_id'') ''$in'' = JArr ids"
    and "\<exists>x\<in>set ids. \<not> objectIdIsValid P x"
  shows "snd (asyncHandler updateMoviesBatch P req w) = w
       \<and> getProp (json (fst (asyncHandler updateMoviesBatch P req w))) ''success'' = JBool False
       \<and> snd (asyncHandler deleteMoviesBatch P req w) = w
       \<and> getProp (json (fst (asyncHandler deleteMoviesBatch P req w))) ''success'' = JBool False"
proof -
  let ?f = "getProp (body req) ''filter''"
  from processFilter_invalid[OF assms] obtain e where pf: "processFilter P ?f = Inl e" by blast
  have d: "destructure (body req) ''filter'' = Inr ?f"
    using assms(1) by (cases "body req") auto
  have u: "snd (asyncHandler updateMoviesBatch P req w) = w
       \<and> getProp (json (fst (asyncHandler updateMoviesBatch P req w))) ''success'' = JBool False"
    using pf d
    by (auto simp add: asyncHandler_def updateMoviesBatch_def Let_def sendError_def
        createErrorResponse_def errorHandler_def getCollection_def split: sum.splits prod.splits)
  have dl: "snd (asyncHandler deleteMoviesBatch P req w) = w
       \<and> getProp (json (fst (asyncHandler deleteMoviesBatch P req w))) ''success'' = JBool False"
    using pf d
    by (auto simp add: asyncHandler_def deleteMoviesBatch_def Let_def sendError_def
        createErrorResponse_def errorHandler_def getCollection_def split: sum.splits prod.splits)
  from u dl show ?thesis by simp
qed

theorem batch_invalid_id_atomic_witness:
  "snd (asyncHandler updateMoviesBatch (samplePlatform emptyStore noAnswer None)
          (request0\<lparr>body := batchBody\<rparr>) (world0 7)) = world0 7
   \<and> status (fst (asyncHandler updateMoviesBatch (samplePlatform emptyStore noAnswer None)
          (request0\<lparr>body := batchBody\<rparr>) (world0 7))) = 500
   \<and> snd (asyncHandler deleteMoviesBatch (samplePlatform emptyStore noAnswer None)
          (request0\<lparr>body := batchBody\<rparr>) (world0 7)) = world0 7
   \<and> status (fst (asyncHandler deleteMoviesBatch (samplePlatform emptyStore noAnswer None)
          (request0\<lparr>body := batchBody\<rparr>) (world0 7))) = 500"
proof -
  have v: "\<exists>x\<in>set [JStr ''507f1f77bcf86cd799439011'', JStr ''invalid-id''].
             \<not> objectIdIsValid (samplePlatform emptyStore noAnswer None) x"
    by (simp add: samplePlatform_def)
  have g: "getProp (getProp (getProp (body (request0\<lparr>body := batchBody\<rparr>)) ''filter'') ''_id'')
             ''$in'' = JArr [JStr ''507f1f77bcf86cd799439011'', JStr ''invalid-id'']"
    by (simp add: batchBody_def)
  have s1: "status (fst (asyncHandler updateMoviesBatch (samplePlatform emptyStore noAnswer None)
          (request0\<lparr>body := batchBody\<rparr>) (world0 7))) = 500"
    by (simp add: asyncHandler_def updateMoviesBatch_def request0_def batchBody_def world0_def
        samplePlatform_def processFilter_def getCollection_def errorHandler_def
        isHexDigit_def digitValue_def)
  have s2: "status (fst (asyncHandler deleteMoviesBatch (samplePlatform emptyStore noAnswer None)
          (request0\<lparr>body := batchBody\<rparr>) (world0 7))) = 500"
    by (simp add: asyncHandler_def deleteMoviesBatch_def request0_def batchBody_def world0_def
        samplePlatform_def processFilter_def getCollection_def errorHandler_def
        isHexDigit_def digitValue_def)
  from batch_invalid_id_atomic [OF g v, of "world0 7"] s1 s2 show ?thesis by simp
qed


subsection \<open>Identifier validation\<close>

text \<open>
  C5, as the source has it. With an identifier string that the driver's predicate rejects,
  get, update, delete and find-and-delete by id answer 400 with code
  \<^verbatim>\<open>INVALID_OBJECT_ID\<close> and return the world unchanged, so nothing is sent to the store.
  The comment report does the same for a non-empty \<^verbatim>\<open>movieId\<close>, once the database is
  connected (it fetches its collection handle first).
\<close>

theorem invalid_id_rejected:
  assumes "\<not> objectIdIsValid P (JStr i)"
  shows "(params_id req = i \<longrightarrow>
            asyncHandler getMovieById P req w =
              (\<lparr>status = 400, json = createErrorResponse P (outside w)
                  ''Invalid movie ID format'' (Some ''INVALID_OBJECT_ID'') JUndefined\<rparr>, w)
          \<and> asyncHandler updateMovie P req w =
              (\<lparr>status = 400, json = createErrorResponse P (outside w)
                  ''Invalid movie ID format'' (Some ''INVALID_OBJECT_ID'') JUndefined\<rparr>, w)
          \<and> asyncHandler deleteMovie P req w =
              (\<lparr>status = 400, json = createErrorResponse P (outside w)
                  ''Invalid movie ID format'' (Some ''INVALID_OBJECT_ID'') JUndefined\<rparr>, w)
          \<and> asyncHandler findAndDeleteMovie P req w =
              (\<lparr>status = 400, json = createErrorResponse P (outside w)
                  ''Invalid movie ID format'' (Some ''INVALID_OBJECT_ID'') JUndefined\<rparr>, w))
       \<and> (database w \<longrightarrow> i \<noteq> [] \<longrightarrow> queryParam req ''movieId'' = Some (QStr i) \<longrightarrow>
            asyncHandler getMoviesWithMostRecentComments P req w =
              (\<lparr>status = 400, json = createErrorResponse P (outside w)
                  ''Invalid movie ID format'' (Some ''INVALID_OBJECT_ID'') JUndefined\<rparr>, w))"
  using assms
  by (simp add: asyncHandler_def getMovieById_def updateMovie_def deleteMovie_def
      findAndDeleteMovie_def getMoviesWithMostRecentComments_def getCollection_def
      sendError_def Let_def)

theorem invalid_id_rejected_witness:
  "status (fst (asyncHandler getMovieById (samplePlatform emptyStore noAnswer None)
      (request0\<lparr>params_id := ''invalid-id''\<rparr>) (world0 7))) = 400
   \<and> snd (asyncHandler deleteMovie (samplePlatform emptyStore noAnswer None)
      (request0\<lparr>params_id := ''invalid-id''\<rparr>) (world0 7)) = world0 7
   \<and> status (fst (asyncHandler getMoviesWithMostRecentComments
      (samplePlatform emptyStore noAnswer None)
      (request0\<lparr>params_id := ''invalid-id'', query := [(''movieId'', QStr ''invalid-id'')]\<rparr>)
      (world0 7))) = 400
   \<and> snd (asyncHandler getMoviesWithMostRecentComments
      (samplePlatform emptyStore noAnswer None)
      (request0\<lparr>params_id := ''invalid-id'', query := [(''movieId'', QStr ''invalid-id'')]\<rparr>)
      (world0 7)) = world0 7"
proof -
  have inv: "\<not> objectIdIsValid (samplePlatform emptyStore noAnswer None) (JStr ''invalid-id'')"
    by (simp add: samplePlatform_def)
  show ?thesis
    using invalid_id_rejected [OF inv, of "request0\<lparr>params_id := ''invalid-id''\<rparr>" "world0 7"]
      invalid_id_rejected [OF inv,
        of "request0\<lparr>params_id := ''invalid-id'', query := [(''movieId'', QStr ''invalid-id'')]\<rparr>"
           "world0 7"]
    by (simp add: request0_def world0_def queryParam_def)
qed

text \<open>
  C5 as stated fails on the comment report: an empty \<^verbatim>\<open>movieId\<close> is not a valid
  identifier, yet the report treats it as absent, queries the store and answers 200.
\<close>

theorem comment_report_empty_movieId_counterexample:
  "\<not> objectIdIsValid (samplePlatform emptyStore noAnswer None) (JStr [])
   \<and> status (fst (asyncHandler getMoviesWithMostRecentComments
        (samplePlatform emptyStore noAnswer None)
        (request0\<lparr>query := [(''movieId'', QStr [])]\<rparr>) (world0 7))) = 200
   \<and> calls (snd (asyncHandler getMoviesWithMostRecentComments
        (samplePlatform emptyStore noAnswer None)
        (request0\<lparr>query := [(''movieId'', QStr [])]\<rparr>) (world0 7)))
       = [Aggregate ''movies'' (commentsPipeline None (clampLimit (QStr ''10'') 10 50) False)]"
  by (simp add: asyncHandler_def getMoviesWithMostRecentComments_def getCollection_def
      request0_def world0_def queryParam_def withDefault_def samplePlatform_def
      await_store_def sendSuccess_def Let_def)

subsection \<open>Compound search without text fields\<close>

text \<open>
  C1, as the source has it. With the database connected and none of plot, fullplot,
  directors, writers and cast supplied (absent or empty), the answer is a 400 failure and
  nothing is sent to the store; its code is \<^verbatim>\<open>NO_SEARCH_PARAMETERS\<close> when the search
  operator is one of the four valid ones (or absent), and \<^verbatim>\<open>INVALID_SEARCH_OPERATOR\<close>
  otherwise, since the operator is validated first.
\<close>

theorem search_without_fields:
  assumes "database w"
    and "\<not> qtruthy (queryParam req ''plot'')"
    and "\<not> qtruthy (queryParam req ''fullplot'')"
    and "\<not> qtruthy (queryParam req ''directors'')"
    and "\<not> qtruthy (queryParam req ''writers'')"
    and "\<not> qtruthy (queryParam req ''cast'')"
  shows "status (fst (asyncHandler searchMovies P req w)) = 400
       \<and> getProp (json (fst (asyncHandler searchMovies P req w))) ''success'' = JBool False
       \<and> getProp (getProp (json (fst (asyncHandler searchMovies P req w))) ''error'') ''code''
           = JStr (if includesOperator (withDefault (queryParam req ''searchOperator'') ''must'')
                   then ''NO_SEARCH_PARAMETERS'' else ''INVALID_SEARCH_OPERATOR'')
       \<and> snd (asyncHandler searchMovies P req w) = w"
  using assms
  by (simp add: asyncHandler_def searchMovies_def getCollection_def sendError_def Let_def
      phraseClause_def fuzzyClause_def createErrorResponse_def optStr_def)

theorem search_without_fields_witness:
  "status (fst (asyncHandler searchMovies (samplePlatform emptyStore noAnswer None)
      (request0\<lparr>query := [(''limit'', QStr ''5''), (''searchOperator'', QStr ''should'')]\<rparr>)
      (world0 7))) = 400
   \<and> getProp (getProp (json (fst (asyncHandler searchMovies
      (samplePlatform emptyStore noAnswer None)
      (request0\<lparr>query := [(''limit'', QStr ''5''), (''searchOperator'', QStr ''should'')]\<rparr>)
      (world0 7)))) ''error'') ''code'' = JStr ''NO_SEARCH_PARAMETERS''
   \<and> snd (asyncHandler searchMovies (samplePlatform emptyStore noAnswer None)
      (request0\<lparr>query := [(''limit'', QStr ''5''), (''searchOperator'', QStr ''should'')]\<rparr>)
      (world0 7)) = world0 7"
  using search_without_fields [of "world0 7"
      "request0\<lparr>query := [(''limit'', QStr ''5''), (''searchOperator'', QStr ''should'')]\<rparr>"
      "samplePlatform emptyStore noAnswer None"]
  by (simp add: request0_def world0_def queryParam_def withDefault_def validOperators_def)

text \<open>
  C1 as stated fails: with no text field and an invalid search operator the code of the
  answer is \<^verbatim>\<open>INVALID_SEARCH_OPERATOR\<close>.
\<close>

theorem search_invalid_operator_counterexample:
  "queryParam (request0\<lparr>query := [(''searchOperator'', QStr ''invalid'')]\<rparr>) ''plot'' = None
   \<and> status (fst (asyncHandler searchMovies (samplePlatform emptyStore noAnswer None)
        (request0\<lparr>query := [(''searchOperator'', QStr ''invalid'')]\<rparr>) (world0 7))) = 400
   \<and> getProp (getProp (json (fst (asyncHandler searchMovies
        (samplePlatform emptyStore noAnswer None)
        (request0\<lparr>query := [(''searchOperator'', QStr ''invalid'')]\<rparr>) (world0 7)))) ''error'')
        ''code'' = JStr ''INVALID_SEARCH_OPERATOR''"
  by (simp add: asyncHandler_def searchMovies_def getCollection_def sendError_def Let_def
      request0_def world0_def queryParam_def withDefault_def validOperators_def
      createErrorResponse_def optStr_def)


subsection \<open>Pagination limits\<close>

















subsection \<open>Failures of the embedding provider\<close>

lemma trim_Nil: "trim [] = []"
  by (simp add: trim_def)

text \<open>
  C3 does not hold of the source. Whenever the provider fails, by a rejected request or by
  any response that is not ok (status 401 included), \<^verbatim>\<open>generateVoyageEmbedding\<close> throws
  one and the same kind of error, and the handler's \<^verbatim>\<open>catch\<close> answers 500 with code
  \<^verbatim>\<open>VECTOR_SEARCH_ERROR\<close>: neither 401 nor 503 is ever sent.
\<close>

theorem provider_failure_answers_500:
  assumes "queryParam req ''q'' = Some (QStr q)" and "trim q \<noteq> []"
    and "VOYAGE_API_KEY P = Some apiKey" and "trim apiKey \<noteq> []"
    and "case fst (fetch P ''https://api.voyageai.com/v1/embeddings''
                     (voyageRequest (trim q) apiKey) (outside w)) of
           FetchRejected e \<Rightarrow> True
         | FetchResponse ok' st txt js \<Rightarrow> \<not> ok'"
  shows "status (fst (asyncHandler vectorSearchMovies P req w)) = 500
       \<and> getProp (getProp (json (fst (asyncHandler vectorSearchMovies P req w))) ''error'')
           ''code'' = JStr ''VECTOR_SEARCH_ERROR''
       \<and> calls (snd (asyncHandler vectorSearchMovies P req w)) = calls w"
proof -
  from assms(2) have q: "q \<noteq> []" using trim_Nil by auto
  from assms(4) have k: "apiKey \<noteq> []" using trim_Nil by auto
  obtain r s' where f: "fetch P ''https://api.voyageai.com/v1/embeddings''
                     (voyageRequest (trim q) apiKey) (outside w) = (r, s')"
    by (cases "fetch P ''https://api.voyageai.com/v1/embeddings''
                     (voyageRequest (trim q) apiKey) (outside w)") auto
  with assms(5) have "\<exists>msg. generateVoyageEmbedding P (trim q) apiKey w
                         = (Inl (JsError ''Error'' msg), w\<lparr>outside := s'\<rparr>)"
    by (cases r) (auto simp add: generateVoyageEmbedding_def)
  then obtain msg where g: "generateVoyageEmbedding P (trim q) apiKey w
                         = (Inl (JsError ''Error'' msg), w\<lparr>outside := s'\<rparr>)" by blast
  show ?thesis
    using assms(1,2,3,4) q k g
    by (simp add: asyncHandler_def vectorSearchMovies_def vectorSearchTry_def sendError_def
        createErrorResponse_def optStr_def Let_def)
qed

theorem provider_failure_answers_500_witness:
  "status (fst (asyncHandler vectorSearchMovies
      (samplePlatform emptyStore (FetchResponse False 401 ''Unauthorized'' (Inr JNull))
         (Some ''test-api-key''))
      (request0\<lparr>query := [(''q'', QStr ''test'')]\<rparr>) (world0 7))) = 500
   \<and> getProp (getProp (json (fst (asyncHandler vectorSearchMovies
      (samplePlatform emptyStore (FetchResponse False 401 ''Unauthorized'' (Inr JNull))
         (Some ''test-api-key''))
      (request0\<lparr>query := [(''q'', QStr ''test'')]\<rparr>) (world0 7)))) ''error'')
        ''code'' = JStr ''VECTOR_SEARCH_ERROR''"
proof -
  let ?P = "samplePlatform emptyStore (FetchResponse False 401 ''Unauthorized'' (Inr JNull))
              (Some ''test-api-key'')"
  let ?req = "request0\<lparr>query := [(''q'', QStr ''test'')]\<rparr>"
  have 1: "queryParam ?req ''q'' = Some (QStr ''test'')"
    by (simp add: request0_def queryParam_def)
  have 2: "trim ''test'' \<noteq> []"
    by (simp add: trim_def isStrWhiteSpaceChar_def)
  have 3: "VOYAGE_API_KEY ?P = Some ''test-api-key''"
    by (simp add: samplePlatform_def)
  have 4: "trim ''test-api-key'' \<noteq> []"
    by (simp add: trim_def isStrWhiteSpaceChar_def)
  have 5: "case fst (fetch ?P ''https://api.voyageai.com/v1/embeddings''
                     (voyageRequest (trim ''test'') ''test-api-key'') (outside (world0 7))) of
             FetchRejected e \<Rightarrow> True
           | FetchResponse ok' st txt js \<Rightarrow> \<not> ok'"
    by (simp add: samplePlatform_def)
  from provider_failure_answers_500 [OF 1 2 3 4 5] show ?thesis by simp
qed


subsection \<open>Vector search: merge and sort\<close>

lemma set_insertBy: "set (insertBy c x ys) = insert x (set ys)"
  by (induction ys) auto

lemma mset_insertBy: "mset (insertBy c x ys) = add_mset x (mset ys)"
  by (induction ys) auto

lemma mset_arraySort: "mset (arraySort c xs) = mset xs"
  by (induction xs) (auto simp add: mset_insertBy)

lemma set_arraySort: "set (arraySort c xs) = set xs"
  using mset_arraySort [of c xs] by (metis set_mset_mset)

lemma byScoreDesc_numeric:
  "getProp a ''score'' = JNum x \<Longrightarrow> getProp b ''score'' = JNum y \<Longrightarrow>
   notAfter (byScoreDesc P a b) = (y \<le> x)"
  by (simp add: byScoreDesc_def jsMinus_def)

lemma sorted_insertBy:
  assumes "\<forall>r\<in>set (x # ys). \<exists>v. getProp r ''score'' = JNum v"
    and "sorted_wrt (\<lambda>a b. scoreOf b \<le> scoreOf a) ys"
  shows "sorted_wrt (\<lambda>a b. scoreOf b \<le> scoreOf a) (insertBy (byScoreDesc P) x ys)"
  using assms
proof (induction ys)
  case Nil
  then show ?case by simp
next
  case (Cons y ys)
  from Cons.prems(1) obtain vx vy where
    vx: "getProp x ''score'' = JNum vx" and vy: "getProp y ''score'' = JNum vy"
    by auto
  have sx: "scoreOf x = vx" and sy: "scoreOf y = vy"
    using vx vy by (simp_all add: scoreOf_def)
  show ?case
  proof (cases "vy \<le> vx")
    case True
    then have "insertBy (byScoreDesc P) x (y # ys) = x # y # ys"
      using byScoreDesc_numeric [OF vx vy, of P] by simp
    moreover have "\<forall>z\<in>set ys. scoreOf z \<le> scoreOf x"
      using Cons.prems(2) True sx sy by auto
    ultimately show ?thesis using Cons.prems(2) True sx sy by simp
  next
    case False
    then have e: "insertBy (byScoreDesc P) x (y # ys) = y # insertBy (byScoreDesc P) x ys"
      using byScoreDesc_numeric [OF vx vy, of P] by simp
    have "sorted_wrt (\<lambda>a b. scoreOf b \<le> scoreOf a) (insertBy (byScoreDesc P) x ys)"
      using Cons.IH Cons.prems by simp
    moreover have "\<forall>z\<in>set (insertBy (byScoreDesc P) x ys). scoreOf z \<le> scoreOf y"
      using Cons.prems(2) False sx sy by (auto simp add: set_insertBy)
    ultimately show ?thesis using e by simp
  qed
qed

lemma sorted_arraySort:
  "\<forall>r\<in>set xs. \<exists>v. getProp r ''score'' = JNum v \<Longrightarrow>
   sorted_wrt (\<lambda>a b. scoreOf b \<le> scoreOf a) (arraySort (byScoreDesc P) xs)"
proof (induction xs)
  case Nil
  then show ?case by simp
next
  case (Cons x xs)
  then have "sorted_wrt (\<lambda>a b. scoreOf b \<le> scoreOf a) (arraySort (byScoreDesc P) xs)"
    by simp
  moreover have "\<forall>r\<in>set (x # arraySort (byScoreDesc P) xs). \<exists>v. getProp r ''score'' = JNum v"
    using Cons.prems by (simp add: set_arraySort)
  ultimately show ?case using sorted_insertBy by simp
qed

lemma isNumber_iff: "isNumber v = (\<exists>x. v = JNum x)"
  by (cases v) auto

lemma jsOr_numeric:
  "v = JUndefined \<or> (\<exists>x. v = JNum x) \<Longrightarrow> \<exists>x. jsOr v (JNum 0) = JNum x"
  by (auto simp add: jsOr_def)

lemma mapGet_numeric:
  "numericMap m \<Longrightarrow> mapGet m k = JUndefined \<or> (\<exists>x. mapGet m k = JNum x)"
  by (auto simp add: numericMap_def mapGet_def isNumber_iff split: option.splits)

lemma combineMovie_score:
  assumes "numericMap m" and "combineMovie P m movie = Inr r"
  shows "\<exists>x. getProp r ''score'' = JNum x"
proof -
  from assms(2) obtain k where
    r: "getProp r ''score'' = jsOr (mapGet m k) (JNum 0)"
    by (auto simp add: combineMovie_def Let_def split: sum.splits)
  with jsOr_numeric [OF mapGet_numeric [OF assms(1)]] show ?thesis by simp
qed

lemma mapThrowing_Inr_set:
  "mapThrowing f xs = Inr ys \<Longrightarrow> set ys = {y. \<exists>x\<in>set xs. f x = Inr y}"
proof (induction xs arbitrary: ys)
  case Nil
  then show ?case by simp
next
  case (Cons x xs)
  then show ?case by (auto split: sum.splits)
qed

lemma mapThrowing_Inr_all:
  "mapThrowing f xs = Inr ys \<Longrightarrow> x \<in> set xs \<Longrightarrow> \<exists>y. f x = Inr y \<and> y \<in> set ys"
  by (induction xs arbitrary: ys) (auto split: sum.splits)



lemma mergeResults_sorted:
  assumes "numericMap m" and "mergeResults P m movies = Inr rs"
  shows "sorted_wrt (\<lambda>a b. scoreOf b \<le> scoreOf a) rs
       \<and> (\<forall>r\<in>set rs. \<exists>x. getProp r ''score'' = JNum x)"
proof -
  from assms(2) obtain fs where
    fs: "mapThrowing (combineMovie P m) movies = Inr fs"
    and rs: "rs = arraySort (byScoreDesc P) fs"
    by (auto simp add: mergeResults_def split: sum.splits)
  have num: "\<forall>r\<in>set fs. \<exists>x. getProp r ''score'' = JNum x"
    using mapThrowing_Inr_set [OF fs] combineMovie_score [OF assms(1)] by auto
  from sorted_arraySort [OF num] num rs show ?thesis by (simp add: set_arraySort)
qed

















text \<open>
  C10. A re-fetched movie whose printed identifier has no entry in the score map is kept,
  with score 0; and in every merged list that contains it, it stands after every result
  whose score is positive.
\<close>

theorem unmatched_movie_scores_zero:
  assumes "member movie ''_id'' = Inr i" and "toStringMethod P i = Inr k" and "m k = None"
  shows "\<exists>r. combineMovie P m movie = Inr r
           \<and> getProp r ''_id'' = JStr k \<and> getProp r ''score'' = JNum 0
           \<and> (\<forall>movies rs.
                 numericMap m \<longrightarrow> movie \<in> set movies \<longrightarrow> mergeResults P m movies = Inr rs \<longrightarrow>
                 (\<exists>n<length rs. rs ! n = r
                    \<and> (\<forall>j<length rs. 0 < scoreOf (rs ! j) \<longrightarrow> j < n)))"
proof -
  obtain r where r: "combineMovie P m movie = Inr r"
    and ri: "getProp r ''_id'' = JStr k" and rs0: "getProp r ''score'' = JNum 0"
    using assms by (auto simp add: combineMovie_def mapGet_def jsOr_def Let_def)
  have s0: "scoreOf r = 0" using rs0 by (simp add: scoreOf_def)
  have "\<exists>n<length rs. rs ! n = r \<and> (\<forall>j<length rs. 0 < scoreOf (rs ! j) \<longrightarrow> j < n)"
    if nm: "numericMap m" and mem: "movie \<in> set movies"
      and mr: "mergeResults P m movies = Inr rs" for movies rs
  proof -
    from mr obtain fs where
      fs: "mapThrowing (combineMovie P m) movies = Inr fs"
      and rs: "rs = arraySort (byScoreDesc P) fs"
      by (auto simp add: mergeResults_def split: sum.splits)
    from mapThrowing_Inr_all [OF fs mem] r have "r \<in> set fs" by auto
    then have "r \<in> set rs" using rs by (simp add: set_arraySort)
    then obtain n where n: "n < length rs" "rs ! n = r"
      by (auto simp add: in_set_conv_nth)
    have srt: "sorted_wrt (\<lambda>a b. scoreOf b \<le> scoreOf a) rs"
      using mergeResults_sorted [OF nm mr] by simp
    have "j < n" if j: "j < length rs" and pos: "0 < scoreOf (rs ! j)" for j
    proof (rule ccontr)
      assume "\<not> j < n"
      then have "n = j \<or> n < j" by auto
      then show False
      proof
        assume "n = j"
        with n s0 pos show False by simp
      next
        assume "n < j"
        with srt j have "scoreOf (rs ! j) \<le> scoreOf (rs ! n)"
          by (simp add: sorted_wrt_iff_nth_less)
        with n s0 pos show False by simp
      qed
    qed
    with n show ?thesis by blast
  qed
  with r ri rs0 show ?thesis by blast
qed





lemma vectorScoreMap_numeric: "numericMap vectorScoreMap"
  by (auto simp add: numericMap_def vectorScoreMap_def split: if_splits)

lemma vector_merge_length:
  "mergeResults (samplePlatform vectorStore embeddingAnswer None) vectorScoreMap vectorMovies
     = Inr rs \<Longrightarrow> map scoreOf rs = [85 / 100, 78 / 100, 0]"
  by (auto simp add: mergeResults_def combineMovie_def vectorMovies_def vectorScoreMap_def
      toStringMethod_def mapGet_def jsOr_def byScoreDesc_def jsMinus_def scoreOf_def Let_def)

lemma vector_merge_defined:
  "\<exists>rs. mergeResults (samplePlatform vectorStore embeddingAnswer None) vectorScoreMap
           vectorMovies = Inr rs"
  by (simp add: mergeResults_def combineMovie_def vectorMovies_def vectorScoreMap_def
      toStringMethod_def mapGet_def jsOr_def Let_def)

theorem unmatched_movie_scores_zero_witness:
  "\<exists>r rs n. combineMovie (samplePlatform vectorStore embeddingAnswer None) vectorScoreMap
              (hd vectorMovies) = Inr r
       \<and> getProp r ''_id'' = JStr ''507f1f77bcf86cd799439013''
       \<and> getProp r ''score'' = JNum 0
       \<and> mergeResults (samplePlatform vectorStore embeddingAnswer None) vectorScoreMap
              vectorMovies = Inr rs
       \<and> map scoreOf rs = [85 / 100, 78 / 100, 0]
       \<and> n < length rs \<and> rs ! n = r \<and> 1 < n"
proof -
  let ?P = "samplePlatform vectorStore embeddingAnswer None"
  have 1: "member (hd vectorMovies) ''_id'' = Inr (JObjectId ''507f1f77bcf86cd799439013'')"
    by (simp add: vectorMovies_def)
  have 2: "toStringMethod ?P (JObjectId ''507f1f77bcf86cd799439013'')
             = Inr ''507f1f77bcf86cd799439013''"
    by (simp add: toStringMethod_def)
  have 3: "vectorScoreMap ''507f1f77bcf86cd799439013'' = None"
    by (simp add: vectorScoreMap_def)
  have mem: "hd vectorMovies \<in> set vectorMovies"
    by (simp add: vectorMovies_def)
  from vector_merge_defined obtain rs where
    rs: "mergeResults ?P vectorScoreMap vectorMovies = Inr rs" by blast
  have sc: "map scoreOf rs = [85 / 100, 78 / 100, 0]"
    using vector_merge_length [OF rs] .
  from unmatched_movie_scores_zero
    [where m = vectorScoreMap and k = "''507f1f77bcf86cd799439013''", OF 1 2 3] obtain r where
    r: "combineMovie ?P vectorScoreMap (hd vectorMovies) = Inr r"
    "getProp r ''_id'' = JStr ''507f1f77bcf86cd799439013''"
    "getProp r ''score'' = JNum 0"
    and pos: "\<forall>movies rs.
                 numericMap vectorScoreMap \<longrightarrow> hd vectorMovies \<in> set movies \<longrightarrow>
                 mergeResults ?P vectorScoreMap movies = Inr rs \<longrightarrow>
                 (\<exists>n<length rs. rs ! n = r
                    \<and> (\<forall>j<length rs. 0 < scoreOf (rs ! j) \<longrightarrow> j < n))"
    by blast
  from pos vectorScoreMap_numeric mem rs obtain n where
    n: "n < length rs" "rs ! n = r" "\<forall>j<length rs. 0 < scoreOf (rs ! j) \<longrightarrow> j < n"
    by blast
  have len: "length rs = 3" using sc by (metis length_map length_Cons list.size(3) numeral_3_eq_3)
  have "scoreOf (rs ! 1) = 78 / 100"
    using sc len by (metis nth_map nth_Cons_0 nth_Cons_Suc One_nat_def lessI numeral_3_eq_3 Suc_lessD)
  with n(3) len have "1 < n" by auto
  with r rs sc n show ?thesis
    by (intro exI [of _ r] exI [of _ rs] exI [of _ n]) simp
qed


subsection \<open>Year statistics\<close>

lemma those_map_Some:
  "\<forall>x\<in>set xs. f x = Some (g x) \<Longrightarrow> those (map f xs) = Some (map g xs)"
  by (induction xs) auto

lemma filterSome_total:
  "\<forall>x\<in>set xs. p x = Some (q x) \<Longrightarrow> filterSome p xs = Some (filter q xs)"
  by (induction xs) auto

lemma foldl_plus_sum_list: "foldl (+) a xs = a + sum_list (xs :: rat list)"
  by (induction xs arbitrary: a) (auto simp add: algebra_simps)

lemma foldl_wider_same: "\<forall>t\<in>set ts. t = s \<Longrightarrow> wider s s = s \<Longrightarrow> foldl wider s ts = s"
  by (induction ts) auto

lemma matchDoc_yearQuality:
  "\<not> isArrayB (field d ''year'') \<Longrightarrow> matchDoc yearQuality d = Some (numericYearInRange d)"
  by (cases "field d ''year''")
    (auto simp add: matchDoc_def yearQuality_def matchCond_def matchValue_def
      numericYearInRange_def)

lemma match_stage:
  assumes "\<forall>d\<in>set docs. \<not> isArrayB (field d ''year'')"
  shows "runStage (JObj [(''$match'', JObj yearQuality)]) docs
           = Some (filter numericYearInRange docs)"
proof -
  have "filterSome (matchDoc yearQuality) docs = Some (filter numericYearInRange docs)"
    by (rule filterSome_total) (use assms matchDoc_yearQuality in blast)
  then show ?thesis by (simp add: runStage_def)
qed

lemma typeName_double: "typeName v = ''double'' \<longleftrightarrow> (\<exists>x. v = BNum TDouble x)"
  by (cases v rule: typeName.cases) auto

lemma eval_rating:
  "evalExpr d (JObj [(''$cond'', JArr [ratingIsDouble, JStr ''$imdb.rating'', JStr ''$$REMOVE''])])
     = Some (case doubleRating d of None \<Rightarrow> BMissing | Some x \<Rightarrow> BNum TDouble x)"
proof (cases "\<exists>x. field d ''imdb.rating'' = BNum TDouble x")
  case True
  then show ?thesis
    by (auto simp add: ratingIsDouble_def applyOp_def doubleRating_def)
next
  case False
  then have "typeName (field d ''imdb.rating'') \<noteq> ''double''"
    by (simp add: typeName_double)
  moreover from False have "doubleRating d = None"
    by (auto simp add: doubleRating_def split: bson.splits numtype.splits)
  ultimately show ?thesis
    by (simp add: ratingIsDouble_def applyOp_def)
qed

lemma numbersOf_included:
  "numbersOf (map (\<lambda>d. case doubleRating d of None \<Rightarrow> BMissing | Some x \<Rightarrow> BNum TDouble x) ms)
     = map (\<lambda>x. (TDouble, x)) (doubleRatings ms)"
  by (induction ms) (auto simp add: doubleRatings_def List.map_filter_simps split: option.splits)

lemma present_included:
  "filter (\<lambda>v. \<not> isNullish v)
     (map (\<lambda>d. case doubleRating d of None \<Rightarrow> BMissing | Some x \<Rightarrow> BNum TDouble x) ms)
     = map (BNum TDouble) (doubleRatings ms)"
  by (induction ms) (auto simp add: doubleRatings_def List.map_filter_simps split: option.splits)

lemma avgNums_doubles:
  "avgNums (map (\<lambda>x. (TDouble, x)) rs)
     = (if rs = [] then BNull else BNum TDouble (sum_list rs / of_nat (length rs)))"
  by (simp add: avgNums_def foldl_plus_sum_list foldl_wider_same comp_def)

lemma foldl_max_doubles:
  "foldl (\<lambda>best v. if numVal best < numVal v then v else best) (BNum TDouble w)
     (map (BNum TDouble) ws) = BNum TDouble (Max (set (w # ws)))"
proof (induction ws arbitrary: w)
  case Nil
  then show ?case by simp
next
  case (Cons x ws)
  have "Max (set (w # x # ws)) = Max (set (max w x # ws))"
    by (cases "ws = []") (auto simp add: max.assoc)
  with Cons show ?case by (auto simp add: max_def)
qed

lemma foldl_min_doubles:
  "foldl (\<lambda>best v. if numVal v < numVal best then v else best) (BNum TDouble w)
     (map (BNum TDouble) ws) = BNum TDouble (Min (set (w # ws)))"
proof (induction ws arbitrary: w)
  case Nil
  then show ?case by simp
next
  case (Cons x ws)
  have "Min (set (w # x # ws)) = Min (set (min w x # ws))"
    by (cases "ws = []") (auto simp add: min.assoc)
  with Cons show ?case by (auto simp add: min_def)
qed

lemma list_all_doubles: "list_all isNumB (map (BNum TDouble) rs)"
  by (induction rs) auto

lemma max_included:
  "extremum (\<lambda>a b. b < a)
     (map (\<lambda>d. case doubleRating d of None \<Rightarrow> BMissing | Some x \<Rightarrow> BNum TDouble x) ms)
     = Some (if doubleRatings ms = [] then BNull else BNum TDouble (Max (set (doubleRatings ms))))"
proof (cases "doubleRatings ms")
  case Nil
  then show ?thesis by (simp add: extremum_def present_included)
next
  case (Cons r rs)
  then show ?thesis
    using foldl_max_doubles [of r rs] list_all_doubles [of "r # rs"]
    by (simp add: extremum_def present_included)
qed

lemma min_included:
  "extremum (\<lambda>a b. a < b)
     (map (\<lambda>d. case doubleRating d of None \<Rightarrow> BMissing | Some x \<Rightarrow> BNum TDouble x) ms)
     = Some (if doubleRatings ms = [] then BNull else BNum TDouble (Min (set (doubleRatings ms))))"
proof (cases "doubleRatings ms")
  case Nil
  then show ?thesis by (simp add: extremum_def present_included)
next
  case (Cons r rs)
  then show ?thesis
    using foldl_min_doubles [of r rs] list_all_doubles [of "r # rs"]
    by (simp add: extremum_def present_included)
qed

lemma count_ones:
  "sumNums (numbersOf (map (\<lambda>d. BNum TInt 1) ms)) = BNum TInt (of_nat (length ms))"
proof -
  have n: "numbersOf (map (\<lambda>d. BNum TInt 1) ms) = map (\<lambda>d. (TInt, 1)) ms"
    by (induction ms) auto
  have s: "sum_list (map (\<lambda>d. 1 :: rat) ms) = of_nat (length ms)"
    by (induction ms) auto
  show ?thesis
    by (simp add: n sumNums_def foldl_plus_sum_list foldl_wider_same comp_def s)
qed

lemma rating_accumulators:
  "accumulateField ms (name, ratingAccumulator ''$avg'')
     = Some (name, if doubleRatings ms = [] then BNull
                   else BNum TDouble (sum_list (doubleRatings ms) / of_nat (length (doubleRatings ms))))"
  "accumulateField ms (name, ratingAccumulator ''$max'')
     = Some (name, if doubleRatings ms = [] then BNull
                   else BNum TDouble (Max (set (doubleRatings ms))))"
  "accumulateField ms (name, ratingAccumulator ''$min'')
     = Some (name, if doubleRatings ms = [] then BNull
                   else BNum TDouble (Min (set (doubleRatings ms))))"
proof -
  have t: "those (map (\<lambda>d. evalExpr d (JObj [(''$cond'',
              JArr [ratingIsDouble, JStr ''$imdb.rating'', JStr ''$$REMOVE''])])) ms)
        = Some (map (\<lambda>d. case doubleRating d of None \<Rightarrow> BMissing | Some x \<Rightarrow> BNum TDouble x) ms)"
    by (rule those_map_Some) (simp add: eval_rating del: evalExpr.simps)
  show "accumulateField ms (name, ratingAccumulator ''$avg'')
     = Some (name, if doubleRatings ms = [] then BNull
                   else BNum TDouble (sum_list (doubleRatings ms) / of_nat (length (doubleRatings ms))))"
    by (simp add: accumulateField_def ratingAccumulator_def t accumulate_def
        numbersOf_included avgNums_doubles del: evalExpr.simps)
  show "accumulateField ms (name, ratingAccumulator ''$max'')
     = Some (name, if doubleRatings ms = [] then BNull
                   else BNum TDouble (Max (set (doubleRatings ms))))"
    by (simp add: accumulateField_def ratingAccumulator_def t accumulate_def
        max_included del: evalExpr.simps)
  show "accumulateField ms (name, ratingAccumulator ''$min'')
     = Some (name, if doubleRatings ms = [] then BNull
                   else BNum TDouble (Min (set (doubleRatings ms))))"
    by (simp add: accumulateField_def ratingAccumulator_def t accumulate_def
        min_included del: evalExpr.simps)
qed

lemma count_accumulator:
  "accumulateField ms (name, JObj [(''$sum'', JNum 1)])
     = Some (name, BNum TInt (of_nat (length ms)))"
proof -
  have t: "those (map (\<lambda>d. evalExpr d (JNum 1)) ms) = Some (map (\<lambda>d. BNum TInt 1) ms)"
    by (rule those_map_Some) (simp add: literalNum_def)
  show ?thesis
    by (simp add: accumulateField_def t accumulate_def count_ones del: evalExpr.simps)
qed

lemma foldl_wider_widest:
  "foldl wider a ts =
     (if TDecimal \<in> set (a # ts) then TDecimal
      else if TDouble \<in> set (a # ts) then TDouble
      else if TLong \<in> set (a # ts) then TLong
      else TInt)"
proof (induction ts arbitrary: a)
  case Nil
  then show ?case by (cases a) auto
next
  case (Cons t ts)
  show ?case
    unfolding foldl_Cons Cons.IH
    by (cases a; cases t) auto
qed

lemma votes_types:
  "map fst (numbersOf (map (\<lambda>d. field d ''imdb.votes'') ms)) = voteTypes ms"
proof (induction ms)
  case Nil
  then show ?case by (simp add: voteTypes_def List.map_filter_simps)
next
  case (Cons m ms)
  then show ?case
    by (cases "field m ''imdb.votes''") (auto simp add: voteTypes_def List.map_filter_simps)
qed

lemma votes_sum:
  "sum_list (map snd (numbersOf (map (\<lambda>d. field d ''imdb.votes'') ms)))
     = sum_list (map voteCount ms)"
proof (induction ms)
  case Nil
  then show ?case by simp
next
  case (Cons m ms)
  then show ?case
    by (cases "field m ''imdb.votes''") (auto simp add: voteCount_def)
qed

lemma votes_total:
  "sumNums (numbersOf (map (\<lambda>d. field d ''imdb.votes'') ms))
     = BNum (votesType ms) (sum_list (map voteCount ms))"
  by (simp add: sumNums_def foldl_plus_sum_list foldl_wider_widest votes_types votes_sum
      votesType_def)

lemma votes_accumulator:
  "accumulateField ms (name, JObj [(''$sum'', JStr ''$imdb.votes'')])
     = Some (name, BNum (votesType ms) (sum_list (map voteCount ms)))"
proof -
  have t: "those (map (\<lambda>d. evalExpr d (JStr ''$imdb.votes'')) ms)
             = Some (map (\<lambda>d. field d ''imdb.votes'') ms)"
    by (rule those_map_Some) simp
  show ?thesis
    by (simp add: accumulateField_def t accumulate_def votes_total del: evalExpr.simps)
qed

lemma floor_bounds:
  "of_int \<lfloor>a\<rfloor> \<le> (a :: rat) \<and> a < of_int \<lfloor>a\<rfloor> + 1"
  by linarith

lemma nearer_below:
  "((x :: rat) - of_int f / 100 < of_int f / 100 + 1 / 100 - x) = (x * 100 - of_int f < 1 / 2)"
  by (simp add: field_simps) linarith

lemma nearer_above:
  "(of_int f / 100 + 1 / 100 - x < (x :: rat) - of_int f / 100) = (1 / 2 < x * 100 - of_int f)"
  by (simp add: field_simps) linarith

lemma round_two_places: "roundPlaces x 2 = nearestHundredth x"
  unfolding roundPlaces_def roundHalfEven_def nearestHundredth_def Let_def
    nearer_below nearer_above
  by (simp add: add_divide_distrib)

lemma nearestHundredth_nearest:
  "(\<exists>n :: int. nearestHundredth r = of_int n / 100) \<and> \<bar>nearestHundredth r - r\<bar> \<le> 1 / 200"
proof -
  define f where "f = \<lfloor>r * 100\<rfloor>"
  have b: "of_int f \<le> r * 100" "r * 100 < of_int f + 1"
    using floor_bounds [of "r * 100"] by (simp_all add: f_def)
  have n: "nearestHundredth r =
             (if r * 100 - of_int f < 1 / 2 then of_int f / 100
              else if 1 / 2 < r * 100 - of_int f then of_int (f + 1) / 100
              else if even f then of_int f / 100 else of_int (f + 1) / 100)"
    unfolding nearestHundredth_def Let_def f_def [symmetric] nearer_below nearer_above
    by (simp add: add_divide_distrib)
  have d: "nearestHundredth r = of_int f / 100 \<or> nearestHundredth r = of_int (f + 1) / 100"
    unfolding n by (simp only: split: if_split) blast
  then have 1: "\<exists>n :: int. nearestHundredth r = of_int n / 100"
    by blast
  have 2: "\<bar>nearestHundredth r - r\<bar> \<le> 1 / 200"
  proof (cases "r * 100 - of_int f < 1 / 2")
    case True
    then have "nearestHundredth r = of_int f / 100" by (simp add: n)
    with True b show ?thesis by (simp add: abs_le_iff field_simps)
  next
    case False
    note F = False
    show ?thesis
    proof (cases "1 / 2 < r * 100 - of_int f")
      case True
      with F have "nearestHundredth r = (of_int f + 1) / 100" by (simp add: n)
      with True b show ?thesis by (simp add: abs_le_iff field_simps)
    next
      case False
      with F have e: "r * 100 - of_int f = 1 / 2" by simp
      then have "nearestHundredth r = of_int f / 100 \<or> nearestHundredth r = (of_int f + 1) / 100"
        by (simp add: n)
      with e show ?thesis by (auto simp add: abs_le_iff field_simps)
    qed
  qed
  from 1 2 show ?thesis by blast
qed

lemma set_distinctKeys: "set (distinctKeys ks) \<subseteq> set ks"
  by (induction ks) auto

lemma groupKey_year:
  "isNumB (field d ''year'') \<Longrightarrow> groupKey (JStr ''$year'') d = Some (field d ''year'')"
  by (auto simp add: groupKey_def)

lemma bsonEq_numeric: "isNumB a \<Longrightarrow> isNumB b \<Longrightarrow> bsonEq a b = (numVal a = numVal b)"
  by (cases a; cases b) auto

lemma runStage_group: "runStage (JObj [(''$group'', JObj spec)]) docs = groupStage spec docs"
  by (simp add: runStage_def)

lemma runStage_project:
  "runStage (JObj [(''$project'', JObj spec)]) docs = projectStage spec docs"
  by (simp add: runStage_def)

lemma groupStage_Cons:
  "groupStage ((''_id'', keyExpr) # accs) docs =
     (case those (map (groupKey keyExpr) docs) of
        None \<Rightarrow> None
      | Some keys \<Rightarrow>
          those (map (\<lambda>k.
            map_option (\<lambda>fs. (''_id'', k) # fs)
              (those (map (accumulateField
                             [d \<leftarrow> docs. map_option (\<lambda>k'. bsonEq k' k) (groupKey keyExpr d)
                                            = Some True]) accs)))
            (distinctKeys keys)))"
  by (simp add: groupStage_def)

lemma group_stage:
  assumes "\<forall>d\<in>set good. isNumB (field d ''year'')"
  shows "runStage
           (JObj [(''$group'',
             JObj [(''_id'', JStr ''$year''),
                   (''movieCount'', JObj [(''$sum'', JNum 1)]),
                   (''averageRating'', ratingAccumulator ''$avg''),
                   (''highestRating'', ratingAccumulator ''$max''),
                   (''lowestRating'', ratingAccumulator ''$min''),
                   (''totalVotes'', JObj [(''$sum'', JStr ''$imdb.votes'')])])]) good
         = Some (map (\<lambda>y. yearGroup y [d \<leftarrow> good. numVal (field d ''year'') = numVal y])
                   (distinctKeys (map (\<lambda>d. field d ''year'') good)))"
proof -
  let ?keys = "map (\<lambda>d. field d ''year'') good"
  have keys: "those (map (groupKey (JStr ''$year'')) good) = Some ?keys"
    by (rule those_map_Some) (use assms in \<open>simp add: groupKey_year\<close>)
  have each: "map_option (\<lambda>fs. (''_id'', k) # fs)
        (those (map (accumulateField
                       [d \<leftarrow> good. map_option (\<lambda>k'. bsonEq k' k) (groupKey (JStr ''$year'') d)
                                      = Some True])
           [(''movieCount'', JObj [(''$sum'', JNum 1)]),
            (''averageRating'', ratingAccumulator ''$avg''),
            (''highestRating'', ratingAccumulator ''$max''),
            (''lowestRating'', ratingAccumulator ''$min''),
            (''totalVotes'', JObj [(''$sum'', JStr ''$imdb.votes'')])]))
      = Some (yearGroup k [d \<leftarrow> good. numVal (field d ''year'') = numVal k])"
    if k: "k \<in> set (distinctKeys ?keys)" for k
  proof -
    from k set_distinctKeys have "k \<in> set ?keys" by blast
    with assms have nk: "isNumB k" by auto
    have m: "[d \<leftarrow> good. map_option (\<lambda>k'. bsonEq k' k) (groupKey (JStr ''$year'') d) = Some True]
               = [d \<leftarrow> good. numVal (field d ''year'') = numVal k]"
      by (rule filter_cong) (use assms nk in \<open>auto simp add: groupKey_year bsonEq_numeric\<close>)
    show ?thesis
      unfolding m
      by (simp add: rating_accumulators count_accumulator votes_accumulator yearGroup_def Let_def)
  qed
  have "runStage
           (JObj [(''$group'',
             JObj [(''_id'', JStr ''$year''),
                   (''movieCount'', JObj [(''$sum'', JNum 1)]),
                   (''averageRating'', ratingAccumulator ''$avg''),
                   (''highestRating'', ratingAccumulator ''$max''),
                   (''lowestRating'', ratingAccumulator ''$min''),
                   (''totalVotes'', JObj [(''$sum'', JStr ''$imdb.votes'')])])]) good
        = those (map (\<lambda>k. map_option (\<lambda>fs. (''_id'', k) # fs)
            (those (map (accumulateField
                       [d \<leftarrow> good. map_option (\<lambda>k'. bsonEq k' k) (groupKey (JStr ''$year'') d)
                                      = Some True])
               [(''movieCount'', JObj [(''$sum'', JNum 1)]),
                (''averageRating'', ratingAccumulator ''$avg''),
                (''highestRating'', ratingAccumulator ''$max''),
                (''lowestRating'', ratingAccumulator ''$min''),
                (''totalVotes'', JObj [(''$sum'', JStr ''$imdb.votes'')])])))
            (distinctKeys ?keys))"
    by (simp only: runStage_group groupStage_Cons keys option.case)
  also have "\<dots> = Some (map (\<lambda>y. yearGroup y [d \<leftarrow> good. numVal (field d ''year'') = numVal y])
                   (distinctKeys ?keys))"
    by (rule those_map_Some) (use each in blast)
  finally show ?thesis .
qed

lemma project_group:
  assumes "isNumB y"
  shows "map_option
           (\<lambda>fss. (if ''_id'' \<in> set (map fst
                        [(''year'', JStr ''$_id''), (''movieCount'', JNum 1),
                         (''averageRating'', JObj [(''$round'', JArr [JStr ''$averageRating'', JNum 2])]),
                         (''highestRating'', JNum 1), (''lowestRating'', JNum 1),
                         (''totalVotes'', JNum 1), (''_id'', JNum 0)])
                       \<or> field (yearGroup y ms) ''_id'' = BMissing then []
                    else [(''_id'', field (yearGroup y ms) ''_id'')]) @ concat fss)
           (those (map (projectField (yearGroup y ms))
                     [(''year'', JStr ''$_id''), (''movieCount'', JNum 1),
                      (''averageRating'', JObj [(''$round'', JArr [JStr ''$averageRating'', JNum 2])]),
                      (''highestRating'', JNum 1), (''lowestRating'', JNum 1),
                      (''totalVotes'', JNum 1), (''_id'', JNum 0)]))
         = Some (yearStatistics y ms)"
  using assms
  by (cases y)
    (auto simp add: projectField_def yearGroup_def yearStatistics_def field_def Let_def
      applyOp_def literalNum_def round_two_places)

lemma project_stage:
  assumes "\<forall>y\<in>set ys. isNumB y"
  shows "runStage
           (JObj [(''$project'',
             JObj [(''year'', JStr ''$_id''),
                   (''movieCount'', JNum 1),
                   (''averageRating'', JObj [(''$round'', JArr [JStr ''$averageRating'', JNum 2])]),
                   (''highestRating'', JNum 1),
                   (''lowestRating'', JNum 1),
                   (''totalVotes'', JNum 1),
                   (''_id'', JNum 0)])]) (map (\<lambda>y. yearGroup y (ms y)) ys)
         = Some (map (\<lambda>y. yearStatistics y (ms y)) ys)"
proof -
  have "runStage
           (JObj [(''$project'',
             JObj [(''year'', JStr ''$_id''),
                   (''movieCount'', JNum 1),
                   (''averageRating'', JObj [(''$round'', JArr [JStr ''$averageRating'', JNum 2])]),
                   (''highestRating'', JNum 1),
                   (''lowestRating'', JNum 1),
                   (''totalVotes'', JNum 1),
                   (''_id'', JNum 0)])]) (map (\<lambda>y. yearGroup y (ms y)) ys)
     = those (map (\<lambda>y. map_option
           (\<lambda>fss. (if ''_id'' \<in> set (map fst
                        [(''year'', JStr ''$_id''), (''movieCount'', JNum 1),
                         (''averageRating'', JObj [(''$round'', JArr [JStr ''$averageRating'', JNum 2])]),
                         (''highestRating'', JNum 1), (''lowestRating'', JNum 1),
                         (''totalVotes'', JNum 1), (''_id'', JNum 0)])
                       \<or> field (yearGroup y (ms y)) ''_id'' = BMissing then []
                    else [(''_id'', field (yearGroup y (ms y)) ''_id'')]) @ concat fss)
           (those (map (projectField (yearGroup y (ms y)))
                     [(''year'', JStr ''$_id''), (''movieCount'', JNum 1),
                      (''averageRating'', JObj [(''$round'', JArr [JStr ''$averageRating'', JNum 2])]),
                      (''highestRating'', JNum 1), (''lowestRating'', JNum 1),
                      (''totalVotes'', JNum 1), (''_id'', JNum 0)]))) ys)"
    by (simp only: runStage_project projectStage_def map_map comp_def)
  also have "\<dots> = Some (map (\<lambda>y. yearStatistics y (ms y)) ys)"
    by (rule those_map_Some) (use assms project_group in blast)
  finally show ?thesis .
qed

lemma year_of_statistics: "field (yearStatistics y ms) ''year'' = y"
  by (simp add: yearStatistics_def field_def Let_def)

lemma insort_key_agree:
  "f x = g x \<Longrightarrow> \<forall>y\<in>set ys. f y = g y \<Longrightarrow> insort_key f x ys = insort_key g x ys"
  by (induction ys) auto

lemma sort_key_agree:
  "\<forall>x\<in>set xs. f x = g x \<Longrightarrow> sort_key f xs = sort_key g xs"
proof (induction xs)
  case Nil
  then show ?case by simp
next
  case (Cons x xs)
  then have "sort_key f xs = sort_key g xs" by simp
  moreover have "insort_key f x (sort_key g xs) = insort_key g x (sort_key g xs)"
    by (rule insort_key_agree) (use Cons.prems in auto)
  ultimately show ?case by simp
qed

lemma sortKey_number: "isNumB v \<Longrightarrow> sortKey (- 1) v = Some (- numVal v)"
  by (cases v) (auto simp add: sortKey_def)

lemma sort_stage:
  assumes "\<forall>y\<in>set ys. isNumB y"
  shows "runStage (JObj [(''$sort'', JObj [(''year'', JNum (- 1))])])
           (map (\<lambda>y. yearStatistics y (ms y)) ys)
         = Some (sort_key (\<lambda>g. - numVal (field g ''year''))
                   (map (\<lambda>y. yearStatistics y (ms y)) ys))"
proof -
  let ?gs = "map (\<lambda>y. yearStatistics y (ms y)) ys"
  have k: "\<forall>g\<in>set ?gs. sortKey (- 1) (field g ''year'') = Some (- numVal (field g ''year''))"
    using assms by (auto simp add: year_of_statistics sortKey_number)
  then have a: "list_all (\<lambda>d. sortKey (- 1) (field d ''year'') \<noteq> None) ?gs"
    by (simp add: list_all_iff)
  have s: "sort_key (\<lambda>d. the (sortKey (- 1) (field d ''year''))) ?gs
             = sort_key (\<lambda>g. - numVal (field g ''year'')) ?gs"
    by (rule sort_key_agree) (use k in auto)
  show ?thesis
    unfolding runStage_def sortStage_def using a s by simp
qed

lemma pipeline_is_report:
  assumes "\<forall>d\<in>set docs. \<not> isArrayB (field d ''year'')"
  shows "runPipeline yearStatsPipeline docs = Some (yearStatsReport docs)"
proof -
  let ?good = "filter numericYearInRange docs"
  let ?ys = "distinctKeys (map (\<lambda>d. field d ''year'') ?good)"
  let ?ms = "\<lambda>y. [d \<leftarrow> ?good. numVal (field d ''year'') = numVal y]"
  have g: "\<forall>d\<in>set ?good. isNumB (field d ''year'')"
    by (simp add: numericYearInRange_def)
  have ys: "\<forall>y\<in>set ?ys. isNumB y"
    using g set_distinctKeys [of "map (\<lambda>d. field d ''year'') ?good"] by auto
  show ?thesis
    unfolding yearStatsPipeline_def yearStatsReport_def Let_def
    by (simp only: runPipeline.simps match_stage [OF assms] group_stage [OF g]
        project_stage [OF ys] sort_stage [OF ys] option.case)
qed

lemma distinctKeys_covers:
  "\<forall>k\<in>set ks. isNumB k \<Longrightarrow> x \<in> set ks \<Longrightarrow>
   \<exists>k'\<in>set (distinctKeys ks). numVal k' = numVal x"
proof (induction ks)
  case Nil
  then show ?case by simp
next
  case (Cons k ks)
  show ?case
  proof (cases "x = k")
    case True
    then show ?thesis by simp
  next
    case False
    with Cons obtain k' where k': "k' \<in> set (distinctKeys ks)" "numVal k' = numVal x"
      by auto
    have nk': "isNumB k'" using k'(1) set_distinctKeys Cons.prems(1) by auto
    have nk: "isNumB k" using Cons.prems(1) by simp
    show ?thesis
    proof (cases "bsonEq k' k")
      case True
      then have "numVal k = numVal x" using bsonEq_numeric [OF nk' nk] k'(2) by simp
      then show ?thesis by auto
    next
      case False
      with k' show ?thesis by auto
    qed
  qed
qed

lemma distinctKeys_distinct:
  "\<forall>k\<in>set ks. isNumB k \<Longrightarrow> distinct (map numVal (distinctKeys ks))"
proof (induction ks)
  case Nil
  then show ?case by simp
next
  case (Cons k ks)
  have nk: "isNumB k" using Cons.prems by simp
  have all: "\<forall>k'\<in>set (distinctKeys ks). isNumB k'"
    using set_distinctKeys Cons.prems by auto
  have 1: "distinct (map numVal (filter (\<lambda>k'. \<not> bsonEq k' k) (distinctKeys ks)))"
    using Cons by (simp add: distinct_map_filter)
  have 2: "numVal k \<notin> numVal ` set (filter (\<lambda>k'. \<not> bsonEq k' k) (distinctKeys ks))"
    using all nk by (auto simp add: bsonEq_numeric)
  from 1 2 show ?case by simp
qed

lemma distinct_map_sort_key: "distinct (map f (sort_key f xs)) = distinct (map f xs)"
  by (metis mset_map mset_sort mset_eq_imp_distinct_iff)

lemma handler_passes_through:
  assumes "database w"
    and "storeExec P (Aggregate ''movies'' yearStatsPipeline) (outside w) = (Inr results, s')"
  shows "asyncHandler getMoviesByYearWithStats P req w =
           (\<lparr>status = 200,
             json = createSuccessResponse P s' results
                      (Some (''Aggregated statistics for '' @ lengthText results @ '' years''))\<rparr>,
            w\<lparr>outside := s', calls := calls w @ [Aggregate ''movies'' yearStatsPipeline]\<rparr>)"
  using assms
  by (simp add: asyncHandler_def getMoviesByYearWithStats_def getCollection_def
      await_store_def sendSuccess_def)

lemma handler_passes_failure:
  assumes "database w"
    and "storeExec P (Aggregate ''movies'' yearStatsPipeline) (outside w) = (Inl e, s')"
  shows "asyncHandler getMoviesByYearWithStats P req w =
           (errorHandler P e
              (w\<lparr>outside := s', calls := calls w @ [Aggregate ''movies'' yearStatsPipeline]\<rparr>),
            w\<lparr>outside := s', calls := calls w @ [Aggregate ''movies'' yearStatsPipeline]\<rparr>)"
  using assms
  by (simp add: asyncHandler_def getMoviesByYearWithStats_def getCollection_def
      await_store_def)

text \<open>
  C9. On a collection in which no movie's year is an array, the year statistics pipeline
  means the report of the specification: the movies whose year is a number from 1800 to
  2030 are grouped by year; each group carries the number of its movies, the average
  (rounded to two places: a hundredth at most half a hundredth away), the highest and the
  lowest of those ratings that are stored as doubles (a movie with any other rating
  counts as a movie and adds nothing to the three), and the sum of its vote counts; there
  is one group for each such year, and the groups stand in strictly descending order of
  year. The handler sends exactly this pipeline to the store, once, and answers 200 with
  what the store returns as its data, unchanged; a failure of the store goes to the error
  handler.
\<close>

theorem year_statistics_report:
  assumes "\<forall>d\<in>set docs. \<not> isArrayB (field d ''year'')"
  shows "runPipeline yearStatsPipeline docs = Some (yearStatsReport docs)
   \<and> sorted_wrt (\<lambda>a b. numVal (field b ''year'') < numVal (field a ''year''))
        (yearStatsReport docs)
   \<and> (\<forall>g\<in>set (yearStatsReport docs).
         \<exists>d\<in>set docs. numericYearInRange d
           \<and> g = yearStatistics (field g ''year'')
                   [d' \<leftarrow> filter numericYearInRange docs.
                      numVal (field d' ''year'') = numVal (field d ''year'')]
           \<and> numVal (field g ''year'') = numVal (field d ''year''))
   \<and> (\<forall>d\<in>set docs. numericYearInRange d \<longrightarrow>
         (\<exists>g\<in>set (yearStatsReport docs). numVal (field g ''year'') = numVal (field d ''year'')))
   \<and> (\<forall>r. (\<exists>n :: int. nearestHundredth r = of_int n / 100)
            \<and> \<bar>nearestHundredth r - r\<bar> \<le> 1 / 200)
   \<and> (database w \<longrightarrow>
         (\<forall>results s'.
            storeExec P (Aggregate ''movies'' yearStatsPipeline) (outside w) = (Inr results, s')
            \<longrightarrow> asyncHandler getMoviesByYearWithStats P req w =
                 (\<lparr>status = 200,
                   json = createSuccessResponse P s' results
                            (Some (''Aggregated statistics for '' @ lengthText results
                                   @ '' years''))\<rparr>,
                  w\<lparr>outside := s',
                    calls := calls w @ [Aggregate ''movies'' yearStatsPipeline]\<rparr>))
       \<and> (\<forall>e s'.
            storeExec P (Aggregate ''movies'' yearStatsPipeline) (outside w) = (Inl e, s')
            \<longrightarrow> asyncHandler getMoviesByYearWithStats P req w =
                 (errorHandler P e
                    (w\<lparr>outside := s',
                       calls := calls w @ [Aggregate ''movies'' yearStatsPipeline]\<rparr>),
                  w\<lparr>outside := s',
                    calls := calls w @ [Aggregate ''movies'' yearStatsPipeline]\<rparr>)))"
proof -
  let ?good = "filter numericYearInRange docs"
  let ?keys = "map (\<lambda>d. field d ''year'') ?good"
  let ?ys = "distinctKeys ?keys"
  let ?ms = "\<lambda>y. [d \<leftarrow> ?good. numVal (field d ''year'') = numVal y]"
  let ?gs = "map (\<lambda>y. yearStatistics y (?ms y)) ?ys"
  let ?f = "\<lambda>g. - numVal (field g ''year'')"
  have rep: "yearStatsReport docs = sort_key ?f ?gs"
    by (simp add: yearStatsReport_def Let_def)
  have nk: "\<forall>k\<in>set ?keys. isNumB k"
    by (auto simp add: numericYearInRange_def)
  have fg: "map ?f ?gs = map (\<lambda>y. - numVal y) ?ys"
    by (simp add: year_of_statistics comp_def)
  have "distinct (map numVal ?ys)" using distinctKeys_distinct [OF nk] .
  then have "distinct (map (\<lambda>y. - numVal y) ?ys)"
    by (simp add: distinct_map inj_on_def)
  then have dg: "distinct (map ?f ?gs)" unfolding fg .
  from dg have "distinct (map ?f (sort_key ?f ?gs))"
    by (simp only: distinct_map_sort_key)
  moreover have "sorted (map ?f (sort_key ?f ?gs))" by (rule sorted_sort_key)
  ultimately have "sorted_wrt (<) (map ?f (sort_key ?f ?gs))"
    by (simp add: strict_sorted_iff)
  then have srt: "sorted_wrt (\<lambda>a b. numVal (field b ''year'') < numVal (field a ''year''))
                    (yearStatsReport docs)"
    by (simp add: rep sorted_wrt_map)
  have grp: "\<exists>d\<in>set docs. numericYearInRange d
           \<and> g = yearStatistics (field g ''year'')
                   [d' \<leftarrow> ?good. numVal (field d' ''year'') = numVal (field d ''year'')]
           \<and> numVal (field g ''year'') = numVal (field d ''year'')"
    if "g \<in> set (yearStatsReport docs)" for g
  proof -
    from that rep obtain y where y: "y \<in> set ?ys" "g = yearStatistics y (?ms y)" by auto
    from y(1) set_distinctKeys have "y \<in> set ?keys" by blast
    then obtain d where d: "d \<in> set docs" "numericYearInRange d" "y = field d ''year''"
      by auto
    with y(2) show ?thesis by (auto simp add: year_of_statistics)
  qed
  have cov: "\<exists>g\<in>set (yearStatsReport docs). numVal (field g ''year'') = numVal (field d ''year'')"
    if "d \<in> set docs" "numericYearInRange d" for d
  proof -
    from that have "field d ''year'' \<in> set ?keys" by auto
    from distinctKeys_covers [OF nk this] obtain k' where
      k': "k' \<in> set ?ys" "numVal k' = numVal (field d ''year'')" by blast
    from k'(1) have "yearStatistics k' (?ms k') \<in> set (yearStatsReport docs)"
      by (simp add: rep)
    with k'(2) show ?thesis by (metis year_of_statistics)
  qed
  have g': "\<forall>g\<in>set (yearStatsReport docs).
         \<exists>d\<in>set docs. numericYearInRange d
           \<and> g = yearStatistics (field g ''year'')
                   [d' \<leftarrow> filter numericYearInRange docs.
                      numVal (field d' ''year'') = numVal (field d ''year'')]
           \<and> numVal (field g ''year'') = numVal (field d ''year'')"
    using grp by blast
  have c': "\<forall>d\<in>set docs. numericYearInRange d \<longrightarrow>
         (\<exists>g\<in>set (yearStatsReport docs). numVal (field g ''year'') = numVal (field d ''year''))"
    using cov by blast
  have nr: "\<forall>r. (\<exists>n :: int. nearestHundredth r = of_int n / 100)
            \<and> \<bar>nearestHundredth r - r\<bar> \<le> 1 / 200"
    using nearestHundredth_nearest by blast
  have hs: "database w \<longrightarrow>
         (\<forall>results s'.
            storeExec P (Aggregate ''movies'' yearStatsPipeline) (outside w) = (Inr results, s')
            \<longrightarrow> asyncHandler getMoviesByYearWithStats P req w =
                 (\<lparr>status = 200,
                   json = createSuccessResponse P s' results
                            (Some (''Aggregated statistics for '' @ lengthText results
                                   @ '' years''))\<rparr>,
                  w\<lparr>outside := s',
                    calls := calls w @ [Aggregate ''movies'' yearStatsPipeline]\<rparr>))
       \<and> (\<forall>e s'.
            storeExec P (Aggregate ''movies'' yearStatsPipeline) (outside w) = (Inl e, s')
            \<longrightarrow> asyncHandler getMoviesByYearWithStats P req w =
                 (errorHandler P e
                    (w\<lparr>outside := s',
                       calls := calls w @ [Aggregate ''movies'' yearStatsPipeline]\<rparr>),
                  w\<lparr>outside := s',
                    calls := calls w @ [Aggregate ''movies'' yearStatsPipeline]\<rparr>))"
  proof (intro impI conjI allI)
    fix results s'
    assume "database w"
      and "storeExec P (Aggregate ''movies'' yearStatsPipeline) (outside w) = (Inr results, s')"
    then show "asyncHandler getMoviesByYearWithStats P req w =
                 (\<lparr>status = 200,
                   json = createSuccessResponse P s' results
                            (Some (''Aggregated statistics for '' @ lengthText results
                                   @ '' years''))\<rparr>,
                  w\<lparr>outside := s',
                    calls := calls w @ [Aggregate ''movies'' yearStatsPipeline]\<rparr>)"
      by (rule handler_passes_through)
  next
    fix e s'
    assume "database w"
      and "storeExec P (Aggregate ''movies'' yearStatsPipeline) (outside w) = (Inl e, s')"
    then show "asyncHandler getMoviesByYearWithStats P req w =
                 (errorHandler P e
                    (w\<lparr>outside := s',
                       calls := calls w @ [Aggregate ''movies'' yearStatsPipeline]\<rparr>),
                  w\<lparr>outside := s',
                    calls := calls w @ [Aggregate ''movies'' yearStatsPipeline]\<rparr>)"
      by (rule handler_passes_failure)
  qed
  show ?thesis
    by (rule conjI [OF pipeline_is_report [OF assms]
          conjI [OF srt conjI [OF g' conjI [OF c' conjI [OF nr hs]]]]])
qed

lemma floor_2500_3: "\<lfloor>2500 / 3 :: rat\<rfloor> = 833"
  by (rule floor_unique) simp_all

lemma floor_1625_2: "\<lfloor>1625 / 2 :: rat\<rfloor> = 812"
  by (rule floor_unique) simp_all

lemma nearestHundredth_third: "nearestHundredth (25 / 3) = 833 / 100"
  by (simp add: nearestHundredth_def Let_def floor_2500_3)

lemma nearestHundredth_tie: "nearestHundredth (65 / 8) = 203 / 25"
  by (simp add: nearestHundredth_def Let_def floor_1625_2)

lemma sample_report:
  "yearStatsReport sampleMovies =
     [[(''year'', BNum TInt 2023), (''movieCount'', BNum TInt 4),
       (''averageRating'', BNum TDouble (833 / 100)),
       (''highestRating'', BNum TDouble 9), (''lowestRating'', BNum TDouble 8),
       (''totalVotes'', BNum TLong 150)],
      [(''year'', BNum TInt 1999), (''movieCount'', BNum TInt 1),
       (''averageRating'', BNull), (''highestRating'', BNull),
       (''lowestRating'', BNull), (''totalVotes'', BNum TInt 0)],
      [(''year'', BNum TInt 1987), (''movieCount'', BNum TInt 1),
       (''averageRating'', BNum TDouble (203 / 25)),
       (''highestRating'', BNum TDouble (65 / 8)), (''lowestRating'', BNum TDouble (65 / 8)),
       (''totalVotes'', BNum TDouble (21 / 2))]]"
  by (simp add: yearStatsReport_def sampleMovies_def numericYearInRange_def field_def
      yearStatistics_def doubleRatings_def doubleRating_def List.map_filter_simps
      nearestHundredth_third nearestHundredth_tie voteCount_def votesType_def voteTypes_def
      Let_def)

lemma sample_no_array: "\<forall>d\<in>set sampleMovies. \<not> isArrayB (field d ''year'')"
  by (simp add: sampleMovies_def field_def)

theorem year_statistics_report_witness:
  "runPipeline yearStatsPipeline sampleMovies =
     Some [[(''year'', BNum TInt 2023), (''movieCount'', BNum TInt 4),
            (''averageRating'', BNum TDouble (833 / 100)),
            (''highestRating'', BNum TDouble 9), (''lowestRating'', BNum TDouble 8),
            (''totalVotes'', BNum TLong 150)],
           [(''year'', BNum TInt 1999), (''movieCount'', BNum TInt 1),
            (''averageRating'', BNull), (''highestRating'', BNull),
            (''lowestRating'', BNull), (''totalVotes'', BNum TInt 0)],
           [(''year'', BNum TInt 1987), (''movieCount'', BNum TInt 1),
            (''averageRating'', BNum TDouble (203 / 25)),
            (''highestRating'', BNum TDouble (65 / 8)),
            (''lowestRating'', BNum TDouble (65 / 8)),
            (''totalVotes'', BNum TDouble (21 / 2))]]
   \<and> status (fst (asyncHandler getMoviesByYearWithStats
         (samplePlatform (movieStore sampleMovies) noAnswer None) request0 (world0 7))) = 200
   \<and> getProp (json (fst (asyncHandler getMoviesByYearWithStats
         (samplePlatform (movieStore sampleMovies) noAnswer None) request0 (world0 7)))) ''data''
       = JArr [JObj [(''year'', JNum 2023), (''movieCount'', JNum 4),
                     (''averageRating'', JNum (833 / 100)),
                     (''highestRating'', JNum 9), (''lowestRating'', JNum 8),
                     (''totalVotes'', JNum 150)],
               JObj [(''year'', JNum 1999), (''movieCount'', JNum 1),
                     (''averageRating'', JNull), (''highestRating'', JNull),
                     (''lowestRating'', JNull), (''totalVotes'', JNum 0)],
               JObj [(''year'', JNum 1987), (''movieCount'', JNum 1),
                     (''averageRating'', JNum (203 / 25)),
                     (''highestRating'', JNum (65 / 8)), (''lowestRating'', JNum (65 / 8)),
                     (''totalVotes'', JNum (21 / 2))]]
   \<and> getProp (json (fst (asyncHandler getMoviesByYearWithStats
         (samplePlatform (movieStore sampleMovies) noAnswer None) request0 (world0 7))))
         ''success'' = JBool True
   \<and> calls (snd (asyncHandler getMoviesByYearWithStats
         (samplePlatform (movieStore sampleMovies) noAnswer None) request0 (world0 7)))
       = [Aggregate ''movies'' yearStatsPipeline]"
proof -
  let ?P = "samplePlatform (movieStore sampleMovies) noAnswer None"
  let ?op = "Aggregate ''movies'' yearStatsPipeline"
  let ?rows = "JArr (map renderDoc (yearStatsReport sampleMovies))"
  note t = year_statistics_report [OF sample_no_array, of "world0 7" ?P request0]
  from t have run: "runPipeline yearStatsPipeline sampleMovies
                      = Some (yearStatsReport sampleMovies)"
    by blast
  have st: "storeExec ?P ?op (outside (world0 7)) = (Inr ?rows, 8)"
    by (simp add: samplePlatform_def world0_def run)
  have db: "database (world0 7)" by (simp add: world0_def)
  from t db st have h: "asyncHandler getMoviesByYearWithStats ?P request0 (world0 7) =
      (\<lparr>status = 200,
        json = createSuccessResponse ?P 8 ?rows
                 (Some (''Aggregated statistics for '' @ lengthText ?rows @ '' years''))\<rparr>,
       (world0 7)\<lparr>outside := 8, calls := calls (world0 7) @ [?op]\<rparr>)"
    by blast
  have data: "?rows =
       JArr [JObj [(''year'', JNum 2023), (''movieCount'', JNum 4),
                     (''averageRating'', JNum (833 / 100)),
                     (''highestRating'', JNum 9), (''lowestRating'', JNum 8),
                     (''totalVotes'', JNum 150)],
               JObj [(''year'', JNum 1999), (''movieCount'', JNum 1),
                     (''averageRating'', JNull), (''highestRating'', JNull),
                     (''lowestRating'', JNull), (''totalVotes'', JNum 0)],
               JObj [(''year'', JNum 1987), (''movieCount'', JNum 1),
                     (''averageRating'', JNum (203 / 25)),
                     (''highestRating'', JNum (65 / 8)), (''lowestRating'', JNum (65 / 8)),
                     (''totalVotes'', JNum (21 / 2))]]"
    by (simp add: sample_report renderDoc_def)
  have r: "runPipeline yearStatsPipeline sampleMovies =
     Some [[(''year'', BNum TInt 2023), (''movieCount'', BNum TInt 4),
            (''averageRating'', BNum TDouble (833 / 100)),
            (''highestRating'', BNum TDouble 9), (''lowestRating'', BNum TDouble 8),
            (''totalVotes'', BNum TLong 150)],
           [(''year'', BNum TInt 1999), (''movieCount'', BNum TInt 1),
            (''averageRating'', BNull), (''highestRating'', BNull),
            (''lowestRating'', BNull), (''totalVotes'', BNum TInt 0)],
           [(''year'', BNum TInt 1987), (''movieCount'', BNum TInt 1),
            (''averageRating'', BNum TDouble (203 / 25)),
            (''highestRating'', BNum TDouble (65 / 8)),
            (''lowestRating'', BNum TDouble (65 / 8)),
            (''totalVotes'', BNum TDouble (21 / 2))]]"
    using run by (simp only: sample_report)
  have d: "getProp (createSuccessResponse ?P 8 ?rows
             (Some (''Aggregated statistics for '' @ lengthText ?rows @ '' years''))) ''data''
           = ?rows"
    by (simp add: createSuccessResponse_def)
  have s: "getProp (createSuccessResponse ?P 8 ?rows
             (Some (''Aggregated statistics for '' @ lengthText ?rows @ '' years''))) ''success''
           = JBool True"
    by (simp add: createSuccessResponse_def)
  have c: "calls (world0 7) = []" by (simp add: world0_def)
  show ?thesis
    unfolding h using r d s data c by simp
qed

text \<open>
  A year stored as an array passes the quality filter when one element is a number, one
  is at least 1800 and one is at most 2030: the movie whose year is \<open>[1700, 2100]\<close> gets a
  group of its own, the first that the pipeline returns, although it has no numeric year
  from 1800 to 2030; the report of the specification has the group of 1999 only.
\<close>

theorem year_array_counterexample:
  "runPipeline yearStatsPipeline arrayYearMovies =
     Some [[(''year'', BArray [BNum TInt 1700, BNum TInt 2100]),
            (''movieCount'', BNum TInt 1),
            (''averageRating'', BNum TDouble 7),
            (''highestRating'', BNum TDouble 7), (''lowestRating'', BNum TDouble 7),
            (''totalVotes'', BNum TInt 0)],
           [(''year'', BNum TInt 1999), (''movieCount'', BNum TInt 1),
            (''averageRating'', BNum TDouble 6),
            (''highestRating'', BNum TDouble 6), (''lowestRating'', BNum TDouble 6),
            (''totalVotes'', BNum TInt 0)]]
   \<and> filter numericYearInRange arrayYearMovies
       = [[(''year'', BNum TInt 1999), (''imdb.rating'', BNum TDouble 6)]]
   \<and> yearStatsReport arrayYearMovies
       = [[(''year'', BNum TInt 1999), (''movieCount'', BNum TInt 1),
           (''averageRating'', BNum TDouble 6),
           (''highestRating'', BNum TDouble 6), (''lowestRating'', BNum TDouble 6),
           (''totalVotes'', BNum TInt 0)]]
   \<and> runPipeline yearStatsPipeline arrayYearMovies \<noteq> Some (yearStatsReport arrayYearMovies)"
proof -
  have m: "runStage (JObj [(''$match'', JObj yearQuality)]) arrayYearMovies
             = Some arrayYearMovies"
    by (simp add: runStage_def matchDoc_def yearQuality_def matchCond_def matchValue_def
        arrayYearMovies_def field_def)
  have g: "runStage
           (JObj [(''$group'',
             JObj [(''_id'', JStr ''$year''),
                   (''movieCount'', JObj [(''$sum'', JNum 1)]),
                   (''averageRating'', ratingAccumulator ''$avg''),
                   (''highestRating'', ratingAccumulator ''$max''),
                   (''lowestRating'', ratingAccumulator ''$min''),
                   (''totalVotes'', JObj [(''$sum'', JStr ''$imdb.votes'')])])]) arrayYearMovies
         = Some [[(''_id'', BNum TInt 1999), (''movieCount'', BNum TInt 1),
                  (''averageRating'', BNum TDouble 6),
                  (''highestRating'', BNum TDouble 6), (''lowestRating'', BNum TDouble 6),
                  (''totalVotes'', BNum TInt 0)],
                 [(''_id'', BArray [BNum TInt 1700, BNum TInt 2100]),
                  (''movieCount'', BNum TInt 1),
                  (''averageRating'', BNum TDouble 7),
                  (''highestRating'', BNum TDouble 7), (''lowestRating'', BNum TDouble 7),
                  (''totalVotes'', BNum TInt 0)]]"
    by (simp add: runStage_group groupStage_Cons groupKey_def rating_accumulators
        count_accumulator votes_accumulator arrayYearMovies_def field_def doubleRatings_def
        doubleRating_def List.map_filter_simps voteCount_def votesType_def voteTypes_def)
  have p: "runStage
           (JObj [(''$project'',
             JObj [(''year'', JStr ''$_id''),
                   (''movieCount'', JNum 1),
                   (''averageRating'', JObj [(''$round'', JArr [JStr ''$averageRating'', JNum 2])]),
                   (''highestRating'', JNum 1),
                   (''lowestRating'', JNum 1),
                   (''totalVotes'', JNum 1),
                   (''_id'', JNum 0)])])
           [[(''_id'', BNum TInt 1999), (''movieCount'', BNum TInt 1),
             (''averageRating'', BNum TDouble 6),
             (''highestRating'', BNum TDouble 6), (''lowestRating'', BNum TDouble 6),
             (''totalVotes'', BNum TInt 0)],
            [(''_id'', BArray [BNum TInt 1700, BNum TInt 2100]),
             (''movieCount'', BNum TInt 1),
             (''averageRating'', BNum TDouble 7),
             (''highestRating'', BNum TDouble 7), (''lowestRating'', BNum TDouble 7),
             (''totalVotes'', BNum TInt 0)]]
         = Some [[(''year'', BNum TInt 1999), (''movieCount'', BNum TInt 1),
                  (''averageRating'', BNum TDouble 6),
                  (''highestRating'', BNum TDouble 6), (''lowestRating'', BNum TDouble 6),
                  (''totalVotes'', BNum TInt 0)],
                 [(''year'', BArray [BNum TInt 1700, BNum TInt 2100]),
                  (''movieCount'', BNum TInt 1),
                  (''averageRating'', BNum TDouble 7),
                  (''highestRating'', BNum TDouble 7), (''lowestRating'', BNum TDouble 7),
                  (''totalVotes'', BNum TInt 0)]]"
    by (simp add: runStage_project projectStage_def projectField_def field_def applyOp_def
        literalNum_def roundPlaces_def roundHalfEven_def)
  have s: "runStage (JObj [(''$sort'', JObj [(''year'', JNum (- 1))])])
           [[(''year'', BNum TInt 1999), (''movieCount'', BNum TInt 1),
             (''averageRating'', BNum TDouble 6),
             (''highestRating'', BNum TDouble 6), (''lowestRating'', BNum TDouble 6),
             (''totalVotes'', BNum TInt 0)],
            [(''year'', BArray [BNum TInt 1700, BNum TInt 2100]),
             (''movieCount'', BNum TInt 1),
             (''averageRating'', BNum TDouble 7),
             (''highestRating'', BNum TDouble 7), (''lowestRating'', BNum TDouble 7),
             (''totalVotes'', BNum TInt 0)]]
         = Some [[(''year'', BArray [BNum TInt 1700, BNum TInt 2100]),
                  (''movieCount'', BNum TInt 1),
                  (''averageRating'', BNum TDouble 7),
                  (''highestRating'', BNum TDouble 7), (''lowestRating'', BNum TDouble 7),
                  (''totalVotes'', BNum TInt 0)],
                 [(''year'', BNum TInt 1999), (''movieCount'', BNum TInt 1),
                  (''averageRating'', BNum TDouble 6),
                  (''highestRating'', BNum TDouble 6), (''lowestRating'', BNum TDouble 6),
                  (''totalVotes'', BNum TInt 0)]]"
    by (simp add: runStage_def sortStage_def sortKey_def field_def)
  have run: "runPipeline yearStatsPipeline arrayYearMovies =
     Some [[(''year'', BArray [BNum TInt 1700, BNum TInt 2100]),
            (''movieCount'', BNum TInt 1),
            (''averageRating'', BNum TDouble 7),
            (''highestRating'', BNum TDouble 7), (''lowestRating'', BNum TDouble 7),
            (''totalVotes'', BNum TInt 0)],
           [(''year'', BNum TInt 1999), (''movieCount'', BNum TInt 1),
            (''averageRating'', BNum TDouble 6),
            (''highestRating'', BNum TDouble 6), (''lowestRating'', BNum TDouble 6),
            (''totalVotes'', BNum TInt 0)]]"
    unfolding yearStatsPipeline_def
    by (simp only: runPipeline.simps m g p s option.case)
  have good: "filter numericYearInRange arrayYearMovies
       = [[(''year'', BNum TInt 1999), (''imdb.rating'', BNum TDouble 6)]]"
    by (simp add: arrayYearMovies_def numericYearInRange_def field_def)
  have rep: "yearStatsReport arrayYearMovies
       = [[(''year'', BNum TInt 1999), (''movieCount'', BNum TInt 1),
           (''averageRating'', BNum TDouble 6),
           (''highestRating'', BNum TDouble 6), (''lowestRating'', BNum TDouble 6),
           (''totalVotes'', BNum TInt 0)]]"
    by (simp add: yearStatsReport_def good field_def yearStatistics_def doubleRatings_def
        doubleRating_def List.map_filter_simps nearestHundredth_def voteCount_def
        votesType_def voteTypes_def Let_def)
  from run good rep show ?thesis by simp
qed

end
